theory Spec2Isabelle
  imports Complex_Main
begin

section \<open>Conventions of the embedding\<close>

text \<open>
  The program is \<^verbatim>\<open>source/main.cpp\<close> of the hydrogen-orbital visualiser. Its
  \<^verbatim>\<open>float\<close> and \<^verbatim>\<open>double\<close> values are modelled as type \<^typ>\<open>real\<close>: every
  statement below is about the exact arithmetic the code writes down, not about
  binary rounding, with one exception. The two clocks of \<^verbatim>\<open>Program\<close> are
  \<^verbatim>\<open>float\<close> accumulators that every frame advances; whether such a clock keeps
  growing is decided by the rounding of the sum, so that addition is modelled with
  its rounding to single precision (\<open>to_float\<close> below). The C \<^verbatim>\<open>int\<close> quantum numbers are modelled as \<^typ>\<open>int\<close>, and
  a conversion from \<^verbatim>\<open>float\<close> to \<^verbatim>\<open>int\<close> truncates: the model is exact
  while the values stay in the 32-bit range, as every value does that a slider
  can store (at most \<open>150\<close> in magnitude); beyond it the C program has no defined
  behaviour. A failed \<^verbatim>\<open>assert\<close> aborts the process; it is the \<open>Inl\<close>
  branch of a sum.

  Record fields carry a prefix (\<open>s_\<close> for \<^verbatim>\<open>Slider\<close>, \<open>hw_\<close> for
  \<^verbatim>\<open>HWaveFunc\<close>, \<open>wave_\<close> for \<^verbatim>\<open>Program::Wave\<close>, \<open>p_\<close> for
  \<^verbatim>\<open>Program\<close>, \<open>e_\<close> for \<^verbatim>\<open>Env\<close>), because the structs share field names.
\<close>

datatype error = AssertionFailed

section \<open>Helpers of \<^verbatim>\<open>math.hpp\<close> and \<^verbatim>\<open>util.hpp\<close>\<close>

text \<open>
  The two headers are not part of the sources at hand. The helpers the
  functions of \<^verbatim>\<open>main.cpp\<close> call are modelled from the specification.
\<close>

definition CLAMP :: "real \<Rightarrow> real \<Rightarrow> real \<Rightarrow> real" where
  \<comment> \<open>Modelled from the spec: the macro \<^verbatim>\<open>CLAMP(v, min, max)\<close> of the missing
      header; "value always clamped to [min,max]".\<close>
  "CLAMP v lo hi = (if v < lo then lo else if hi < v then hi else v)"

definition round_dec :: "real \<Rightarrow> int \<Rightarrow> real" where
  \<comment> \<open>Modelled from the spec: \<^verbatim>\<open>round(v, decimals)\<close> of the missing header;
      "rounded to the declared decimal precision". Ties go up.\<close>
  "round_dec v decimals =
     real_of_int (round (v * (10 powi decimals))) / (10 powi decimals)"

definition fact_h :: "int \<Rightarrow> real" where
  \<comment> \<open>Modelled from the spec: \<^verbatim>\<open>fact(k)\<close> of the missing header, the factorial.\<close>
  "fact_h k = real (fact (nat k))"

definition tau :: real where
  \<comment> \<open>Modelled from the spec: the constant \<^verbatim>\<open>tau\<close> of the missing header, a full turn.\<close>
  "tau = 2 * pi"

section \<open>Single-precision rounding\<close>

text \<open>
  A \<^verbatim>\<open>float\<close> is an integer multiple of its unit in the last place,
  \<open>2^(e - 23)\<close> for a value with binary exponent \<open>e\<close>, where \<open>e\<close> is at least
  \<open>- 126\<close> (below that the values are subnormal and share the unit \<open>2^(-149)\<close>).
  The \<^verbatim>\<open>float\<close> sum of two floats is their exact sum rounded to the nearest
  float, ties to the even multiple; \<open>to_float\<close> is that rounding. A sum of
  magnitude \<open>2^128\<close> or more, which the program turns into an infinity, is outside
  the model: no statement below concerns one.
\<close>

definition float_ulp :: "real \<Rightarrow> real" where
  "float_ulp x = 2 powi (max \<lfloor>log 2 \<bar>x\<bar>\<rfloor> (- 126) - 23)"

definition round_even :: "real \<Rightarrow> int" where
  "round_even q =
     (let f = \<lfloor>q\<rfloor>; d = q - of_int f
      in if d < 1 / 2 then f else if 1 / 2 < d then f + 1 else if even f then f else f + 1)"

definition to_float :: "real \<Rightarrow> real" where
  "to_float x = (if x = 0 then 0 else of_int (round_even (x / float_ulp x)) * float_ulp x)"

section \<open>Sliders\<close>

text \<open>
  A slider holds a pointer \<^verbatim>\<open>float* value\<close> into the program state. The
  pointer is modelled as the name of the field it points to.
\<close>

datatype field =
    F_phase | F_sampleCount | F_resoMul | F_filtering
  | F_r | F_g | F_b | F_complexColor | F_absorption | F_cutoff | F_distance
  | W_amplitude nat | W_phase nat | W_n nat | W_l nat | W_m nat | W_translation nat

definition sliderHeight :: real where
  "sliderHeight = 0.05"

definition sliderWidth :: real where
  "sliderWidth = 0.65"

record Slider =
  s_title :: string
  s_min :: real
  s_max :: real
  s_value :: field
  s_decimals :: int
  s_recompile :: bool

definition slider_top :: "nat \<Rightarrow> real" where
  "slider_top i = 1.0 - real i * sliderHeight"

definition slider_bottom :: "nat \<Rightarrow> real" where
  "slider_bottom i = slider_top (i + 1)"

definition pointInside :: "nat \<Rightarrow> real \<times> real \<Rightarrow> bool" where
  "pointInside i p =
     (fst p \<ge> -1.0 \<and> fst p < sliderWidth - 1.0 \<and>
      snd p > slider_bottom i \<and> snd p < slider_top i)"

definition coordToValue :: "Slider \<Rightarrow> real \<Rightarrow> real" where
  "coordToValue s x =
     (let v = CLAMP ((1.0 + x) / sliderWidth * (s_max s - s_min s) + s_min s) (s_min s) (s_max s)
      in round_dec v (s_decimals s))"

section \<open>The orbital model\<close>

definition maxHPolyTermCount :: nat where
  "maxHPolyTermCount = 30"

definition laguerre :: "real list \<Rightarrow> int \<Rightarrow> int \<Rightarrow> real list" where
  \<comment> \<open>Modelled from the spec: \<^verbatim>\<open>laguerre(coeff, k, alpha)\<close> of the missing header;
      "coefficients of the generalized Laguerre polynomial", here of degree \<open>k\<close> and
      order \<open>alpha\<close>, written into the first \<open>k + 1\<close> cells of the array; the
      other cells keep their content ("zero-padded beyond their true polynomial degree").
      A cell outside the array is not written.\<close>
  "laguerre coeff k alpha =
     map (\<lambda>i. if int i \<le> k
              then (- 1) ^ i * real (nat (k + alpha) choose nat (k - int i)) / fact i
              else coeff ! i)
         [0..<length coeff]"

definition legendre_coeff :: "nat \<Rightarrow> nat \<Rightarrow> real" where
  \<comment> \<open>Modelled from the spec: the coefficient of \<open>x^j\<close> in the Legendre polynomial
      of degree \<open>l\<close>, from which the angular polynomial is derived.\<close>
  "legendre_coeff l j =
     (if j \<le> l \<and> even (l - j)
      then (let k = (l - j) div 2
            in (- 1) ^ k * real (l choose k) * real ((2 * l - 2 * k) choose l) / 2 ^ l)
      else 0)"

definition sphericalHarmonics :: "real list \<Rightarrow> int \<Rightarrow> int \<Rightarrow> real list" where
  \<comment> \<open>Modelled from the spec: \<^verbatim>\<open>sphericalHarmonics(coeff, l, m)\<close> of the missing
      header; "coefficients of the associated-Legendre-derived polynomial in cos
      theta for degree l, order m (the sin^|m| theta factor and the azimuthal term are
      applied separately)": the \<open>|m|\<close>-th derivative of the Legendre polynomial,
      scaled by the normalisation of the spherical harmonic. The other cells keep
      their content; a cell outside the array is not written.\<close>
  "sphericalHarmonics coeff l m =
     map (\<lambda>i. if int i \<le> l - \<bar>m\<bar>
              then sqrt ((2 * real_of_int l + 1) / (4 * pi) * fact_h (l - \<bar>m\<bar>) / fact_h (l + \<bar>m\<bar>))
                   * legendre_coeff (nat l) (i + nat \<bar>m\<bar>)
                   * (fact (i + nat \<bar>m\<bar>) / fact i)
              else coeff ! i)
         [0..<length coeff]"

record HWaveFunc =
  hw_normalization :: real
  hw_laguerreCoeff :: "real list"
  hw_spheCoeff :: "real list"
  hw_phase :: real
  hw_n :: int
  hw_l :: int
  hw_m :: int
  hw_a0 :: real

definition createHWaveFunc :: "int \<Rightarrow> int \<Rightarrow> int \<Rightarrow> real \<Rightarrow> real \<Rightarrow> error + HWaveFunc" where
  "createHWaveFunc n l m phase bohr_radius =
     (if \<not> (n > 0 \<and> l \<ge> 0) then Inl AssertionFailed
      else if \<not> (\<bar>n\<bar> > \<bar>l\<bar>) then Inl AssertionFailed
      else if \<not> (\<bar>l\<bar> \<ge> \<bar>m\<bar>) then Inl AssertionFailed
      else if \<not> (n - l < int maxHPolyTermCount) then Inl AssertionFailed
      else if \<not> (l - 1 < int maxHPolyTermCount) then Inl AssertionFailed
      else Inr \<lparr>
        hw_normalization =
          sqrt ((2.0 / (real_of_int n * bohr_radius)) ^ 3 *
                fact_h (n - l - 1) / (2 * real_of_int n * fact_h (n + l))),
        hw_laguerreCoeff = laguerre (replicate maxHPolyTermCount 0) (n - l - 1) (2 * l + 1),
        hw_spheCoeff = sphericalHarmonics (replicate maxHPolyTermCount 0) l m,
        hw_phase = phase,
        hw_n = n,
        hw_l = l,
        hw_m = m,
        hw_a0 = bohr_radius \<rparr>)"

text \<open>
  \<^verbatim>\<open>value\<close>: \<^verbatim>\<open>std::pow\<close> with an \<^verbatim>\<open>int\<close> exponent is \<open>powi\<close>, with a
  \<^verbatim>\<open>size_t\<close> exponent it is \<open>^\<close>. Where C divides by zero (a zero base under a
  negative exponent) \<open>powi\<close> yields \<open>0\<close>; no theorem below evaluates such a point.
\<close>

definition value_rho :: "HWaveFunc \<Rightarrow> real \<Rightarrow> real" where
  \<comment> \<open>the locals \<^verbatim>\<open>a_0\<close> and \<^verbatim>\<open>rho\<close> of \<^verbatim>\<open>value\<close>, lines 159-160\<close>
  "value_rho w r = (let a_0 = 1.0 in 2 * r / (real_of_int (hw_n w) * a_0))"

definition value_w :: "HWaveFunc \<Rightarrow> real \<Rightarrow> real \<Rightarrow> real \<Rightarrow> complex" where
  "value_w w r theta phi =
     (let rho = value_rho w r;
          amplitude = hw_normalization w;
          amplitude = amplitude * (exp (- rho / 2.0) * (rho powi hw_l w));
          amplitude = amplitude * (\<Sum>i = 0..<maxHPolyTermCount. hw_laguerreCoeff w ! i * rho ^ i);
          cos_theta = cos theta;
          amplitude = amplitude * ((sin theta powi hw_m w) *
                        (\<Sum>i = 0..<maxHPolyTermCount. hw_spheCoeff w ! i * cos_theta ^ i));
          phase = 0.0 + (real_of_int (hw_m w) * phi + hw_phase w)
      in Complex (amplitude * cos phase) (amplitude * sin phase))"


definition amplitude_w :: "HWaveFunc \<Rightarrow> real \<Rightarrow> real \<Rightarrow> real" where
  "amplitude_w w r theta =
     hw_normalization w *
     (exp (- value_rho w r / 2) * (value_rho w r powi hw_l w)) *
     (\<Sum>i = 0..<maxHPolyTermCount. hw_laguerreCoeff w ! i * value_rho w r ^ i) *
     ((sin theta powi hw_m w) *
      (\<Sum>i = 0..<maxHPolyTermCount. hw_spheCoeff w ! i * cos theta ^ i))"

section \<open>The formula compiler\<close>

text \<open>
  The compiler appends to a \<^verbatim>\<open>String\<close> with \<^verbatim>\<open>printf\<close> formats. The text is
  modelled as the sequence of its pieces: the literal text of a format, and the
  number a \<^verbatim>\<open>%e\<close> or \<^verbatim>\<open>%i\<close> directive prints (so the model does not fix
  how the C library spells a number). A \<^verbatim>\<open>%s\<close> directive splices the pieces of
  its argument.
\<close>

datatype tok = Txt string | FmtE real | FmtI int

type_synonym cstring = "tok list"

definition clampQuantum :: "int \<Rightarrow> int \<Rightarrow> int \<Rightarrow> int \<times> int" where
  \<comment> \<open>lines 229-234 of \<^verbatim>\<open>hydrogenWaveFuncStr\<close>\<close>
  "clampQuantum n l m =
     (let l = (if l > n - 1 then n - 1 else l);
          m = (if m > 0 \<and> m > l then l else m);
          m = (if m < 0 \<and> m < - l then - l else m)
      in (l, m))"

definition rho_str :: "int \<Rightarrow> cstring" where
  "rho_str n = (let bohr_radius = 1.0 in [FmtE (2.0 / bohr_radius / real_of_int n), Txt ''*r''])"

definition laguerre_terms :: "int \<Rightarrow> real list \<Rightarrow> cstring" where
  "laguerre_terms n laguerre_coeff =
     concat (map (\<lambda>i. if laguerre_coeff ! i = 0.0 then []
                       else [Txt ''+'', FmtE (laguerre_coeff ! i)] @
                            (if i \<noteq> 0
                             then [Txt ''*pow(''] @ rho_str n @ [Txt '', '', FmtI (int i), Txt ''.0)'']
                             else []))
                 [0..<maxHPolyTermCount])"

definition spherical_terms :: "real list \<Rightarrow> cstring" where
  "spherical_terms spherical_coeff =
     concat (map (\<lambda>i. if spherical_coeff ! i = 0.0 then []
                       else [Txt ''+('', FmtE (spherical_coeff ! i), Txt '')''] @
                            (if i \<noteq> 0
                             then [Txt ''*'',
                                   Txt (if i mod 2 \<noteq> 0 then ''sign(cos_theta)'' else ''1.0''),
                                   Txt ''*pow(abs(cos_theta), '', FmtI (int i), Txt ''.0)'']
                             else []))
                 [0..<maxHPolyTermCount])"

definition amplitude_text :: "int \<Rightarrow> int \<Rightarrow> int \<Rightarrow> cstring" where
  \<comment> \<open>what lines 247-299 append to \<^verbatim>\<open>amplitude\<close>, for clamped \<open>l\<close> and \<open>m\<close>\<close>
  "amplitude_text n l m =
     (let bohr_radius = 1.0 in
      [FmtE (sqrt ((2.0 / (real_of_int n * bohr_radius)) ^ 3 *
                   fact_h (n - l - 1) / (2 * real_of_int n * fact_h (n + l)))),
       Txt ''*'',
       FmtE (1.0 + 2.0 * (real_of_int n powr 2.5))] @
      [Txt ''*''] @
      ([Txt ''exp(-''] @ rho_str n @ [Txt ''/2.0)*pow(''] @ rho_str n @
       [Txt '', '', FmtI l, Txt ''.0)'']) @
      [Txt ''*''] @
      [Txt ''(''] @
      laguerre_terms n (laguerre (replicate maxHPolyTermCount 0) (n - l - 1) (2 * l + 1)) @
      [Txt '')''] @
      [Txt ''*''] @
      (if m \<noteq> 0
       then [Txt (if \<bar>m\<bar> mod 2 \<noteq> 0 then ''sign(sin_theta)'' else ''1.0''),
             Txt ''*pow(abs(sin_theta), '', FmtI \<bar>m\<bar>, Txt ''.0)*'']
       else []) @
      [Txt ''(''] @
      spherical_terms (sphericalHarmonics (replicate maxHPolyTermCount 0) l m) @
      [Txt '')''])"

definition phase_text :: "int \<Rightarrow> real \<Rightarrow> cstring" where
  \<comment> \<open>line 301\<close>
  "phase_text m phase = [FmtI m, Txt ''.0*phi + ('', FmtE phase, Txt '')'']"

text \<open>
  \<^verbatim>\<open>hydrogenWaveFuncStr\<close>. The two strings it is given are allocated by
  \<^verbatim>\<open>createString\<close>, so its first assertion holds. An assertion that fails
  aborts the process and discards the text appended before it, so the checks of
  lines 262 and 286 stand before the text in the model.
\<close>

definition hydrogenWaveFuncStr ::
    "int \<Rightarrow> int \<Rightarrow> int \<Rightarrow> real \<Rightarrow> cstring \<Rightarrow> cstring \<Rightarrow> error + (cstring \<times> cstring)" where
  "hydrogenWaveFuncStr n l m phase amplitude phase_str =
     (let poly_term_count = int maxHPolyTermCount in
      if \<not> (n > 0 \<and> l \<ge> 0) then Inl AssertionFailed
      else (case clampQuantum n l m of (l, m) \<Rightarrow>
        if \<not> (n - l < poly_term_count) then Inl AssertionFailed
        else if \<not> (l - 1 < poly_term_count) then Inl AssertionFailed
        else Inr (amplitude @ amplitude_text n l m, phase_str @ phase_text m phase)))"

section \<open>The emitted expressions\<close>

text \<open>
  The two texts that \<^verbatim>\<open>hydrogenWaveFuncStr\<close> writes are GLSL expressions over
  the shader's locals \<^verbatim>\<open>r\<close>, \<^verbatim>\<open>sin_theta\<close>, \<^verbatim>\<open>cos_theta\<close> and \<^verbatim>\<open>phi\<close>.
  To speak about the number such a text denotes, the expressions are also given
  as syntax trees. The constructors are those the emitted text uses: the two
  \<^verbatim>\<open>printf\<close> conversions (\<open>GNum\<close> for \<^verbatim>\<open>%e\<close>, \<open>GInt\<close> for \<^verbatim>\<open>%i.0\<close>), the
  literals \<^verbatim>\<open>1.0\<close> and \<^verbatim>\<open>2.0\<close>, a variable, unary minus, \<^verbatim>\<open>*\<close>, \<^verbatim>\<open>/\<close>,
  \<^verbatim>\<open>+\<close>, parentheses, the built-ins \<^verbatim>\<open>exp\<close>, \<^verbatim>\<open>pow\<close>, \<^verbatim>\<open>abs\<close>, \<^verbatim>\<open>sign\<close>, and
  the parenthesised sum \<^verbatim>\<open>(+t1+t2...)\<close> that the two coefficient loops write.
  \<open>render\<close> prints a tree as the token list of the embedding.
\<close>

datatype gexpr =
    GNum real
  | GInt int
  | GOne
  | GTwo
  | GVar string
  | GNeg gexpr
  | GMul gexpr gexpr
  | GDiv gexpr gexpr
  | GAdd gexpr gexpr
  | GParen gexpr
  | GExp gexpr
  | GPow gexpr gexpr
  | GAbs gexpr
  | GSign gexpr
  | GSum "gexpr list"

fun render :: "gexpr \<Rightarrow> cstring" where
  "render (GNum x) = [FmtE x]"
| "render (GInt i) = [FmtI i, Txt ''.0'']"
| "render GOne = [Txt ''1.0'']"
| "render GTwo = [Txt ''2.0'']"
| "render (GVar v) = [Txt v]"
| "render (GNeg a) = [Txt ''-''] @ render a"
| "render (GMul a b) = render a @ [Txt ''*''] @ render b"
| "render (GDiv a b) = render a @ [Txt ''/''] @ render b"
| "render (GAdd a b) = render a @ [Txt '' + ''] @ render b"
| "render (GParen a) = [Txt ''(''] @ render a @ [Txt '')'']"
| "render (GExp a) = [Txt ''exp(''] @ render a @ [Txt '')'']"
| "render (GPow a b) = [Txt ''pow(''] @ render a @ [Txt '', ''] @ render b @ [Txt '')'']"
| "render (GAbs a) = [Txt ''abs(''] @ render a @ [Txt '')'']"
| "render (GSign a) = [Txt ''sign(''] @ render a @ [Txt '')'']"
| "render (GSum ts) = [Txt ''(''] @ concat (map (\<lambda>t. [Txt ''+''] @ render t) ts) @ [Txt '')'']"

text \<open>
  Two token lists are the same text when they agree after the literal pieces are
  split into characters; \<open>flat\<close> does that, keeping each converted number as
  one item.
\<close>

datatype piece = Ch char | NumE real | NumI int

fun pieces :: "tok \<Rightarrow> piece list" where
  "pieces (Txt s) = map Ch s"
| "pieces (FmtE x) = [NumE x]"
| "pieces (FmtI i) = [NumI i]"

definition flat :: "cstring \<Rightarrow> piece list" where
  "flat ts = concat (map pieces ts)"

text \<open>
  The value of an expression, in the arithmetic over \<open>real\<close> of this embedding.
  GLSL leaves \<^verbatim>\<open>pow(x, y)\<close> undefined for \<open>x < 0\<close> and for \<open>x = 0\<close>, \<open>y \<le> 0\<close>, and
  leaves a division by zero undefined; these are \<open>None\<close>. An empty sum is the text
  \<^verbatim>\<open>()\<close>, which is not an expression, and is \<open>None\<close> as well.
\<close>

definition lift2 :: "(real \<Rightarrow> real \<Rightarrow> real) \<Rightarrow> real option \<Rightarrow> real option \<Rightarrow> real option" where
  "lift2 f a b = (case (a, b) of (Some x, Some y) \<Rightarrow> Some (f x y) | _ \<Rightarrow> None)"

definition glsl_pow :: "real \<Rightarrow> real \<Rightarrow> real option" where
  "glsl_pow x y = (if x < 0 \<or> (x = 0 \<and> y \<le> 0) then None else Some (x powr y))"

fun sum_terms :: "real option list \<Rightarrow> real option" where
  "sum_terms [] = Some 0"
| "sum_terms (a # as) = lift2 (+) a (sum_terms as)"

fun glsl_eval :: "(string \<Rightarrow> real) \<Rightarrow> gexpr \<Rightarrow> real option" where
  "glsl_eval env (GNum x) = Some x"
| "glsl_eval env (GInt i) = Some (real_of_int i)"
| "glsl_eval env GOne = Some 1"
| "glsl_eval env GTwo = Some 2"
| "glsl_eval env (GVar v) = Some (env v)"
| "glsl_eval env (GNeg a) = map_option uminus (glsl_eval env a)"
| "glsl_eval env (GMul a b) = lift2 (*) (glsl_eval env a) (glsl_eval env b)"
| "glsl_eval env (GDiv a b) =
     (case (glsl_eval env a, glsl_eval env b) of
        (Some x, Some y) \<Rightarrow> if y = 0 then None else Some (x / y)
      | _ \<Rightarrow> None)"
| "glsl_eval env (GAdd a b) = lift2 (+) (glsl_eval env a) (glsl_eval env b)"
| "glsl_eval env (GParen a) = glsl_eval env a"
| "glsl_eval env (GExp a) = map_option exp (glsl_eval env a)"
| "glsl_eval env (GPow a b) =
     (case (glsl_eval env a, glsl_eval env b) of (Some x, Some y) \<Rightarrow> glsl_pow x y | _ \<Rightarrow> None)"
| "glsl_eval env (GAbs a) = map_option abs (glsl_eval env a)"
| "glsl_eval env (GSign a) = map_option sgn (glsl_eval env a)"
| "glsl_eval env (GSum ts) = (if ts = [] then None else sum_terms (map (glsl_eval env) ts))"

text \<open>
  The trees of the amplitude and of the phase, built as \<^verbatim>\<open>hydrogenWaveFuncStr\<close>
  builds the text (lines 243-301), for quantum numbers that its clamp leaves
  unchanged: the same constants, the same loops over the two coefficient tables
  with the same skip of zero coefficients, the same case distinction for the first
  term, the odd powers and \<open>m = 0\<close>. That these trees print as the emitted text
  is proved below (\<open>render_amplitude_expr\<close>, \<open>render_phase_expr\<close>).
\<close>

definition rho_expr :: "int \<Rightarrow> gexpr" where
  "rho_expr n = (let bohr_radius = 1.0 in GMul (GNum (2.0 / bohr_radius / real_of_int n)) (GVar ''r''))"

definition laguerre_term_exprs :: "int \<Rightarrow> real list \<Rightarrow> gexpr list" where
  "laguerre_term_exprs n laguerre_coeff =
     concat (map (\<lambda>i. if laguerre_coeff ! i = 0.0 then []
                       else [if i \<noteq> 0
                             then GMul (GNum (laguerre_coeff ! i)) (GPow (rho_expr n) (GInt (int i)))
                             else GNum (laguerre_coeff ! i)])
                 [0..<maxHPolyTermCount])"

definition spherical_term_exprs :: "real list \<Rightarrow> gexpr list" where
  "spherical_term_exprs spherical_coeff =
     concat (map (\<lambda>i. if spherical_coeff ! i = 0.0 then []
                       else [if i \<noteq> 0
                             then GMul (GMul (GParen (GNum (spherical_coeff ! i)))
                                             (if i mod 2 \<noteq> 0 then GSign (GVar ''cos_theta'') else GOne))
                                       (GPow (GAbs (GVar ''cos_theta'')) (GInt (int i)))
                             else GParen (GNum (spherical_coeff ! i))])
                 [0..<maxHPolyTermCount])"

definition amplitude_expr :: "int \<Rightarrow> int \<Rightarrow> int \<Rightarrow> gexpr" where
  "amplitude_expr n l m =
     (let bohr_radius = 1.0;
          radial =
            GMul (GMul (GMul (GMul
              (GNum (sqrt ((2.0 / (real_of_int n * bohr_radius)) ^ 3 *
                           fact_h (n - l - 1) / (2 * real_of_int n * fact_h (n + l)))))
              (GNum (1.0 + 2.0 * (real_of_int n powr 2.5))))
              (GExp (GDiv (GMul (GNeg (GNum (2.0 / bohr_radius / real_of_int n))) (GVar ''r'')) GTwo)))
              (GPow (rho_expr n) (GInt l)))
              (GSum (laguerre_term_exprs n
                       (laguerre (replicate maxHPolyTermCount 0) (n - l - 1) (2 * l + 1))));
          angular = GSum (spherical_term_exprs (sphericalHarmonics (replicate maxHPolyTermCount 0) l m))
      in if m \<noteq> 0
         then GMul (GMul (GMul radial
                (if \<bar>m\<bar> mod 2 \<noteq> 0 then GSign (GVar ''sin_theta'') else GOne))
                (GPow (GAbs (GVar ''sin_theta'')) (GInt \<bar>m\<bar>)))
                angular
         else GMul radial angular)"

definition phase_expr :: "int \<Rightarrow> real \<Rightarrow> gexpr" where
  "phase_expr m phase = GAdd (GMul (GInt m) (GVar ''phi'')) (GParen (GNum phase))"

text \<open>
  The shader's locals at the point with spherical coordinates \<open>(r, theta, phi)\<close>.
\<close>

definition point_env :: "real \<Rightarrow> real \<Rightarrow> real \<Rightarrow> string \<Rightarrow> real" where
  "point_env r theta phi v =
     (if v = ''r'' then r
      else if v = ''sin_theta'' then sin theta
      else if v = ''cos_theta'' then cos theta
      else if v = ''phi'' then phi
      else 0)"


section \<open>The shader assembler\<close>

record Wave =
  wave_amplitude :: real
  wave_phase :: real
  wave_n :: real
  wave_l :: real
  wave_m :: real
  wave_translation :: real
  wave_particle :: int

definition trunc_int :: "real \<Rightarrow> int" where
  \<comment> \<open>the implicit conversion of a \<^verbatim>\<open>float\<close> argument to an \<^verbatim>\<open>int\<close> parameter\<close>
  "trunc_int x = (if x < 0 then \<lceil>x\<rceil> else \<lfloor>x\<rfloor>)"

text \<open>
  The compiled program is modelled by the source text handed to the driver: the
  vertex shader, and the two fragment sources (the generated defines, and the
  fixed template). The handles the driver returns are not modelled.
\<close>

record VolumeShader =
  shd_vs_src :: string
  shd_fs_src :: "cstring list"

definition vs_src :: string where
  \<comment> \<open>lines 334-349: the adjacent string literals, one per line\<close>
  "vs_src = concat
     [
       ''#version 120\<newline>'',
       ''attribute vec2 a_pos;'',
       ''attribute vec2 a_uv;'',
       ''uniform mat4 u_transform;'',
       ''varying vec3 v_pos;'',
       ''varying vec3 v_normal;'',
       ''varying vec2 v_uv;'',
       ''void main()'',
       ''{'',
       ''	gl_Position= vec4(a_pos, 0.0, 1.0);'',
       ''	v_pos= (u_transform*vec4(0.0, 0.0, 0.0, 1.0)).xyz;'',
       ''	v_normal= mat3(u_transform)*vec3(a_pos, -1.0);'',
       ''	v_uv= a_uv;'',
       ''}'',
       ''\<newline>''
     ]"

definition fs_template_lines :: "string list" where
  \<comment> \<open>lines 350-400: the adjacent string literals, one per line\<close>
  "fs_template_lines =
     [
       ''uniform float u_phase;'',
       ''uniform float u_time;'',
       ''uniform float u_rayLength;'',
       ''uniform vec3 u_color;'',
       ''varying vec3 v_pos;'',
       ''varying vec3 v_normal;'',
       ''varying vec2 v_uv;'',
       ''float rand(vec2 co)'',
       ''{'',
       ''    return fract(sin(dot(co.xy, vec2(12.9898,78.233)))*43758.5453);'',
       ''}'',
       ''float atan2(float y, float x)'',
       ''{'',
       ''	if (abs(x) > abs(y))'',
       ''		return atan(y, x);'',
       ''	else'',
       ''		return 3.1415927/2.0 - atan(x, y);'',
       ''}'',
       ''void main()'',
       ''{'',
       ''	vec3 n= normalize(v_normal);'',
       ''	vec3 color= u_color;'',
       ''	vec3 intensity= vec3(0.0, 0.0, 0.0);'',
       ''	float last_P= 0.0;'',
       ''	float dl= u_rayLength/SAMPLE_COUNT;'',
       ''	for (int i= 0; i < SAMPLE_COUNT; ++i) {'',
       ''		float dist= u_rayLength*float(SAMPLE_COUNT - i - 1)/float(SAMPLE_COUNT);'',
       ''		vec3 cart_p;'',
       ''		float r, phi, cos_theta, theta, sin_theta;'',
       ''		float total_real= 0;'',
       ''		float total_imag= 0;'',
       ''		CALC_TOTAL_WAVEFUNC;'',
       ''		float total_amplitude= total_real*total_real + total_imag*total_imag;'',
       ''		float total_complex_phase= atan2(total_imag, total_real);'',
       ''		float P= total_amplitude*total_amplitude;'',
       ''		if (P < CUTOFF) P= 0;'',
       ''\<newline>#if COMPLEX_COLOR == 1\<newline>'',
       ''		vec3 emission= P*normalize(vec3(0.5 - 0.5*cos(total_complex_phase), 0.2, 0.5 + 0.5*sin(total_complex_phase)));'',
       ''\<newline>#else\<newline>'',
       ''		vec3 emission= P*color;'',
       ''\<newline>#endif\<newline>'',
       ''		float absorption= P*ABSORPTION_MUL;'',
       ''		intensity=	intensity + (emission - intensity*absorption)*dl;'',
       ''		intensity= max(vec3(0.0, 0.0, 0.0), intensity);'',
       ''		last_P= P;'',
       ''	}'',
       ''	intensity += vec3(1.0, 1.0, 1.0)*rand(v_uv.xy*u_time)*0.015;'',
       ''	gl_FragColor= vec4(intensity, 1.0);'',
       ''}'',
       ''\<newline>''
     ]"

definition fs_template_src :: string where
  "fs_template_src = concat fs_template_lines"

text \<open>The loop of lines 322-332: one pair of strings per wave, skipped or not.\<close>

fun hydrogen_strings :: "Wave list \<Rightarrow> error + (cstring \<times> cstring) list" where
  "hydrogen_strings [] = Inr []"
| "hydrogen_strings (w # ws) =
     (case hydrogenWaveFuncStr (trunc_int (wave_n w)) (trunc_int (wave_l w)) (trunc_int (wave_m w))
             (wave_phase w) [] [] of
        Inl e \<Rightarrow> Inl e
      | Inr s \<Rightarrow> (case hydrogen_strings ws of Inl e \<Rightarrow> Inl e | Inr ss \<Rightarrow> Inr (s # ss)))"

definition wave_accumulate :: "nat \<Rightarrow> real \<Rightarrow> cstring" where
  \<comment> \<open>the last two statements of the format of lines 416-417\<close>
  "wave_accumulate i amplitude =
     [Txt ''total_real += a_'', FmtI (int i), Txt ''*cos(p_'', FmtI (int i), Txt '')*'',
      FmtE amplitude, Txt '';'',
      Txt ''total_imag += a_'', FmtI (int i), Txt ''*sin(p_'', FmtI (int i), Txt '');'']"

definition wave_chunk :: "nat \<Rightarrow> Wave \<Rightarrow> cstring \<times> cstring \<Rightarrow> cstring" where
  \<comment> \<open>the \<^verbatim>\<open>append\<close> of lines 407-422, for wave \<open>i\<close>\<close>
  "wave_chunk i w strs =
     [Txt ''cart_p= v_pos + n*dist + vec3(0.0, 0.0, '', FmtE (wave_translation w), Txt '');'',
      Txt ''r= sqrt(dot(cart_p, cart_p));'',
      Txt ''phi= atan2(cart_p.y, cart_p.x);'',
      Txt ''cos_theta= cart_p.z/r;'',
      Txt ''theta= acos(cos_theta);'',
      Txt ''sin_theta= sin(theta);'',
      Txt ''float a_'', FmtI (int i), Txt ''= (''] @ fst strs @ [Txt '');'',
      Txt ''float p_'', FmtI (int i), Txt ''= (''] @ snd strs @ [Txt '');''] @
     wave_accumulate i (wave_amplitude w)"

definition calc_total_wavefunc_define :: "Wave list \<Rightarrow> (cstring \<times> cstring) list \<Rightarrow> cstring" where
  \<comment> \<open>lines 402-423\<close>
  "calc_total_wavefunc_define waves strs =
     [Txt ''#define CALC_TOTAL_WAVEFUNC ''] @
     concat (map (\<lambda>i. if wave_amplitude (waves ! i) \<le> 0.001 then []
                       else wave_chunk i (waves ! i) (strs ! i))
                 [0..<length waves])"

text \<open>
  \<^verbatim>\<open>createVolumeShader\<close>. Its call of \<^verbatim>\<open>testMath\<close>, a self test of the
  missing header, is left out.
\<close>

definition createVolumeShader ::
    "int \<Rightarrow> bool \<Rightarrow> real \<Rightarrow> real \<Rightarrow> Wave list \<Rightarrow> error + VolumeShader" where
  "createVolumeShader sample_count complex_color absorption cutoff waves =
     (if \<not> (length waves > 0) then Inl AssertionFailed
      else (case hydrogen_strings waves of
        Inl e \<Rightarrow> Inl e
      | Inr strs \<Rightarrow>
          (let buf =
                 [Txt ''#version 120\<newline>'',
                  Txt ''#define SAMPLE_COUNT '', FmtI sample_count, Txt ''\<newline>'',
                  Txt ''#define COMPLEX_COLOR '', FmtI (if complex_color then 1 else 0), Txt ''\<newline>'',
                  Txt ''#define ABSORPTION_MUL '', FmtE absorption, Txt ''\<newline>'',
                  Txt ''#define CUTOFF '', FmtE cutoff, Txt ''\<newline>''] @
                 calc_total_wavefunc_define waves strs @ [Txt ''\<newline>'']
           in Inr \<lparr> shd_vs_src = vs_src, shd_fs_src = [buf, [Txt fs_template_src]] \<rparr>)))"

text \<open>
  The sampling loop of the fragment shader (the template above) computes, for
  each sample, after the macro \<^verbatim>\<open>CALC_TOTAL_WAVEFUNC\<close> has set
  \<^verbatim>\<open>total_real\<close> and \<^verbatim>\<open>total_imag\<close>:
  \<^verbatim>\<open>float total_amplitude= total_real*total_real + total_imag*total_imag;\<close>
  \<^verbatim>\<open>float P= total_amplitude*total_amplitude;\<close>
  \<^verbatim>\<open>if (P < CUTOFF) P= 0;\<close>
\<close>

definition sample_P :: "real \<Rightarrow> real \<Rightarrow> real \<Rightarrow> real" where
  "sample_P CUTOFF total_real total_imag =
     (let total_amplitude = total_real * total_real + total_imag * total_imag;
          P = total_amplitude * total_amplitude
      in if P < CUTOFF then 0 else P)"

section \<open>The program state\<close>

definition Program_maxSliders :: nat where
  "Program_maxSliders = 32"

definition Program_maxWaves :: nat where
  "Program_maxWaves = 2"

text \<open>
  Of \<^verbatim>\<open>Program\<close> the model keeps the compiled volume shader, the two clocks,
  the slider-bound settings, the waves and the sliders. The frame buffer, the
  font, the GUI shader and the vertex buffer are driver objects that no function
  below reads.
\<close>

record Program =
  p_shader :: VolumeShader
  p_time :: real
  p_phase :: real
  p_sampleCount :: real
  p_resoMul :: real
  p_filtering :: real
  p_r :: real
  p_g :: real
  p_b :: real
  p_complexColor :: real
  p_absorption :: real
  p_cutoff :: real
  p_distance :: real
  p_waves :: "Wave list"
  p_sliders :: "Slider list"

text \<open>Reading and writing through a slider's pointer.\<close>

fun deref :: "Program \<Rightarrow> field \<Rightarrow> real" where
  "deref p F_phase = p_phase p"
| "deref p F_sampleCount = p_sampleCount p"
| "deref p F_resoMul = p_resoMul p"
| "deref p F_filtering = p_filtering p"
| "deref p F_r = p_r p"
| "deref p F_g = p_g p"
| "deref p F_b = p_b p"
| "deref p F_complexColor = p_complexColor p"
| "deref p F_absorption = p_absorption p"
| "deref p F_cutoff = p_cutoff p"
| "deref p F_distance = p_distance p"
| "deref p (W_amplitude k) = wave_amplitude (p_waves p ! k)"
| "deref p (W_phase k) = wave_phase (p_waves p ! k)"
| "deref p (W_n k) = wave_n (p_waves p ! k)"
| "deref p (W_l k) = wave_l (p_waves p ! k)"
| "deref p (W_m k) = wave_m (p_waves p ! k)"
| "deref p (W_translation k) = wave_translation (p_waves p ! k)"

fun assign :: "Program \<Rightarrow> field \<Rightarrow> real \<Rightarrow> Program" where
  "assign p F_phase v = p\<lparr>p_phase := v\<rparr>"
| "assign p F_sampleCount v = p\<lparr>p_sampleCount := v\<rparr>"
| "assign p F_resoMul v = p\<lparr>p_resoMul := v\<rparr>"
| "assign p F_filtering v = p\<lparr>p_filtering := v\<rparr>"
| "assign p F_r v = p\<lparr>p_r := v\<rparr>"
| "assign p F_g v = p\<lparr>p_g := v\<rparr>"
| "assign p F_b v = p\<lparr>p_b := v\<rparr>"
| "assign p F_complexColor v = p\<lparr>p_complexColor := v\<rparr>"
| "assign p F_absorption v = p\<lparr>p_absorption := v\<rparr>"
| "assign p F_cutoff v = p\<lparr>p_cutoff := v\<rparr>"
| "assign p F_distance v = p\<lparr>p_distance := v\<rparr>"
| "assign p (W_amplitude k) v = p\<lparr>p_waves := (p_waves p)[k := (p_waves p ! k)\<lparr>wave_amplitude := v\<rparr>]\<rparr>"
| "assign p (W_phase k) v = p\<lparr>p_waves := (p_waves p)[k := (p_waves p ! k)\<lparr>wave_phase := v\<rparr>]\<rparr>"
| "assign p (W_n k) v = p\<lparr>p_waves := (p_waves p)[k := (p_waves p ! k)\<lparr>wave_n := v\<rparr>]\<rparr>"
| "assign p (W_l k) v = p\<lparr>p_waves := (p_waves p)[k := (p_waves p ! k)\<lparr>wave_l := v\<rparr>]\<rparr>"
| "assign p (W_m k) v = p\<lparr>p_waves := (p_waves p)[k := (p_waves p ! k)\<lparr>wave_m := v\<rparr>]\<rparr>"
| "assign p (W_translation k) v = p\<lparr>p_waves := (p_waves p)[k := (p_waves p ! k)\<lparr>wave_translation := v\<rparr>]\<rparr>"

definition push :: "nat \<Rightarrow> 'a list \<Rightarrow> 'a \<Rightarrow> error + 'a list" where
  \<comment> \<open>Modelled from the spec: \<^verbatim>\<open>push\<close> on a \<^verbatim>\<open>StackArray\<close> of the missing
      header; "exceeding the fixed maximum wave or slider count must be rejected at
      the add operation".\<close>
  "push capacity xs x = (if length xs < capacity then Inr (xs @ [x]) else Inl AssertionFailed)"

fun push_all :: "nat \<Rightarrow> 'a list \<Rightarrow> 'a list \<Rightarrow> error + 'a list" where
  "push_all capacity xs [] = Inr xs"
| "push_all capacity xs (y # ys) =
     (case push capacity xs y of Inl e \<Rightarrow> Inl e | Inr xs' \<Rightarrow> push_all capacity xs' ys)"

definition addWave :: "Program \<Rightarrow> error + Program" where
  "addWave prog =
     (let w = \<lparr> wave_amplitude = 0, wave_phase = 0, wave_n = 0, wave_l = 0, wave_m = 0,
                wave_translation = 0, wave_particle = 0 \<rparr>;
          w = w\<lparr>wave_n := 1\<rparr>;
          w = (if length (p_waves prog) = 0 then w\<lparr>wave_amplitude := 1.0\<rparr> else w)
      in case push Program_maxWaves (p_waves prog) w of
           Inl e \<Rightarrow> Inl e
         | Inr waves \<Rightarrow>
             (let k = length waves - 1;
                  amplitude = \<lparr> s_title = ''Amplitude'', s_min = 0.0, s_max = 2.0,
                                s_value = W_amplitude k, s_decimals = 3, s_recompile = True \<rparr>;
                  phase = \<lparr> s_title = ''Complex phase'', s_min = 0.0, s_max = tau,
                            s_value = W_phase k, s_decimals = 3, s_recompile = True \<rparr>;
                  n = \<lparr> s_title = ''n'', s_min = 1, s_max = 12,
                        s_value = W_n k, s_decimals = 0, s_recompile = True \<rparr>;
                  l = \<lparr> s_title = ''l'', s_min = 0, s_max = 11,
                        s_value = W_l k, s_decimals = 0, s_recompile = True \<rparr>;
                  m = \<lparr> s_title = ''m'', s_min = - 11, s_max = 11,
                        s_value = W_m k, s_decimals = 0, s_recompile = True \<rparr>;
                  translation = \<lparr> s_title = ''translation'', s_min = - 5.0, s_max = 5.0,
                                  s_value = W_translation k, s_decimals = 3, s_recompile = True \<rparr>
              in case push_all Program_maxSliders (p_sliders prog)
                        [amplitude, phase, n, l, m, translation] of
                   Inl e \<Rightarrow> Inl e
                 | Inr sliders \<Rightarrow> Inr (prog\<lparr>p_waves := waves, p_sliders := sliders\<rparr>)))"

definition default_sliders :: "Slider list" where
  \<comment> \<open>lines 609-621\<close>
  "default_sliders =
     [\<lparr> s_title = ''Time'', s_min = 0.0, s_max = 5.0, s_value = F_phase, s_decimals = 3, s_recompile = False \<rparr>,
      \<lparr> s_title = ''Samples'', s_min = 5, s_max = 150, s_value = F_sampleCount, s_decimals = 0, s_recompile = True \<rparr>,
      \<lparr> s_title = ''Resolution'', s_min = 0.01, s_max = 1.0, s_value = F_resoMul, s_decimals = 2, s_recompile = False \<rparr>,
      \<lparr> s_title = ''Filtering'', s_min = 0, s_max = 1, s_value = F_filtering, s_decimals = 0, s_recompile = False \<rparr>,
      \<lparr> s_title = ''R'', s_min = 0.0, s_max = 2.0, s_value = F_r, s_decimals = 3, s_recompile = False \<rparr>,
      \<lparr> s_title = ''G'', s_min = 0.0, s_max = 2.0, s_value = F_g, s_decimals = 3, s_recompile = False \<rparr>,
      \<lparr> s_title = ''B'', s_min = 0.0, s_max = 2.0, s_value = F_b, s_decimals = 3, s_recompile = False \<rparr>,
      \<lparr> s_title = ''Complex color'', s_min = 0, s_max = 1, s_value = F_complexColor, s_decimals = 0, s_recompile = True \<rparr>,
      \<lparr> s_title = ''Absorption'', s_min = 0.0, s_max = 1.0, s_value = F_absorption, s_decimals = 3, s_recompile = True \<rparr>,
      \<lparr> s_title = ''Cutoff'', s_min = 0.0, s_max = 0.15, s_value = F_cutoff, s_decimals = 4, s_recompile = True \<rparr>,
      \<lparr> s_title = ''Distance'', s_min = 0.2, s_max = 150.0, s_value = F_distance, s_decimals = 4, s_recompile = False \<rparr>]"

text \<open>
  \<^verbatim>\<open>init\<close>, the block "Program state" (lines 595-637). The driver calls
  around it are left out.
\<close>

definition init :: "Program \<Rightarrow> error + Program" where
  "init prog =
     (let prog = prog\<lparr> p_time := 0.0, p_phase := 0.0, p_sampleCount := 40, p_resoMul := 0.5,
                       p_filtering := 0.0, p_r := 1.0, p_g := 0.6, p_b := 0.4,
                       p_complexColor := 0.0, p_absorption := 0.0, p_cutoff := 0.0,
                       p_distance := 2.0 \<rparr>
      in case push_all Program_maxSliders (p_sliders prog) default_sliders of
           Inl e \<Rightarrow> Inl e
         | Inr sliders \<Rightarrow>
        (case addWave (prog\<lparr>p_sliders := sliders\<rparr>) of
           Inl e \<Rightarrow> Inl e
         | Inr prog \<Rightarrow>
        (case addWave prog of
           Inl e \<Rightarrow> Inl e
         | Inr prog \<Rightarrow>
        (case createVolumeShader (trunc_int (p_sampleCount prog)) (p_complexColor prog \<noteq> 0)
                (p_absorption prog) (p_cutoff prog) (p_waves prog) of
           Inl e \<Rightarrow> Inl e
         | Inr shd \<Rightarrow> Inr (prog\<lparr>p_shader := shd\<rparr>)))))"

definition Program_zero :: Program where
  \<comment> \<open>the value-initialised \<^verbatim>\<open>qm::Program prog= {}\<close> of \<^verbatim>\<open>main\<close>\<close>
  "Program_zero =
     \<lparr> p_shader = \<lparr> shd_vs_src = [], shd_fs_src = [] \<rparr>,
       p_time = 0, p_phase = 0, p_sampleCount = 0, p_resoMul = 0, p_filtering = 0,
       p_r = 0, p_g = 0, p_b = 0, p_complexColor = 0, p_absorption = 0, p_cutoff = 0,
       p_distance = 0, p_waves = [], p_sliders = [] \<rparr>"

section \<open>The frame\<close>

text \<open>
  \<^verbatim>\<open>Env\<close> is declared in a header that is not part of the sources at hand.
  Modelled from the spec: of the collaborator inputs the model keeps those that
  the modelled part of \<^verbatim>\<open>frame\<close> reads, the per-frame delta time (a
  \<^verbatim>\<open>float\<close>), the two pointer positions and the state of the button.
\<close>

record Env =
  e_dt :: real
  e_anchorPos :: "real \<times> real"
  e_cursorPos :: "real \<times> real"
  e_lmbDown :: bool

text \<open>
  The driver calls a frame makes on the volume shader are recorded in the order
  they happen.
\<close>

datatype gl_event = DestroyGlShaderProgram | CreateVolumeShader

text \<open>
  One iteration of the loop of lines 694-721, for slider \<open>i\<close>. The flags
  \<^verbatim>\<open>slider_hover\<close> and \<^verbatim>\<open>slider_activity\<close>, which only steer the camera and
  the drawing, are left out.
\<close>

definition slider_step ::
    "Env \<Rightarrow> nat \<Rightarrow> Program \<times> gl_event list \<Rightarrow> error + (Program \<times> gl_event list)" where
  "slider_step env i st =
     (case st of (prog, events) \<Rightarrow>
      (let s = p_sliders prog ! i in
       if pointInside i (e_anchorPos env) then
         (let new_value = coordToValue s (fst (e_cursorPos env));
              value_changed = (e_lmbDown env \<and> new_value \<noteq> deref prog (s_value s));
              prog = (if e_lmbDown env then assign prog (s_value s) new_value else prog)
          in if value_changed \<and> s_recompile s then
               (case createVolumeShader (trunc_int (p_sampleCount prog)) (p_complexColor prog \<noteq> 0)
                       (p_absorption prog) (p_cutoff prog) (p_waves prog) of
                  Inl e \<Rightarrow> Inl e
                | Inr shd \<Rightarrow>
                    Inr (prog\<lparr>p_shader := shd\<rparr>,
                         events @ [DestroyGlShaderProgram, CreateVolumeShader]))
             else Inr (prog, events))
       else Inr (prog, events)))"

fun slider_loop ::
    "Env \<Rightarrow> nat list \<Rightarrow> Program \<times> gl_event list \<Rightarrow> error + (Program \<times> gl_event list)" where
  "slider_loop env [] st = Inr st"
| "slider_loop env (i # is) st =
     (case slider_step env i st of Inl e \<Rightarrow> Inl e | Inr st' \<Rightarrow> slider_loop env is st')"

text \<open>
  \<^verbatim>\<open>frame\<close>, lines 684-721: the clocks, then the sliders. The clocks are
  \<^verbatim>\<open>float\<close> fields and \<^verbatim>\<open>+=\<close> stores the rounded sum. What follows in the
  source (camera, slider texts, frame buffer, drawing) writes none of the fields
  modelled here. The result pairs the new state with the driver calls made on
  the volume shader.
\<close>

definition frame :: "Env \<Rightarrow> Program \<Rightarrow> error + (Program \<times> gl_event list)" where
  "frame env prog =
     (let prog = prog\<lparr>p_time := to_float (p_time prog + e_dt env)\<rparr>;
          prog = prog\<lparr>p_phase := to_float (p_phase prog + e_dt env)\<rparr>
      in slider_loop env [0..<length (p_sliders prog)] (prog, []))"

text \<open>The state after the first two statements of \<^verbatim>\<open>frame\<close>, lines 684-685.\<close>

definition after_clocks :: "Env \<Rightarrow> Program \<Rightarrow> Program" where
  "after_clocks env prog =
     prog\<lparr>p_time := to_float (p_time prog + e_dt env),
          p_phase := to_float (p_phase prog + e_dt env)\<rparr>"

text \<open>
  A pointer edit of slider \<open>i\<close> that changes the value of a slider whose
  recompile flag is set: the pointer was pressed inside the slider, the button is
  down, and the value computed from the cursor differs from the one stored.
\<close>

definition recompile_edit :: "Env \<Rightarrow> Program \<Rightarrow> nat \<Rightarrow> bool" where
  "recompile_edit env prog i =
     (pointInside i (e_anchorPos env) \<and> e_lmbDown env \<and> s_recompile (p_sliders prog ! i) \<and>
      coordToValue (p_sliders prog ! i) (fst (e_cursorPos env)) \<noteq>
        deref (after_clocks env prog) (s_value (p_sliders prog ! i)))"

text \<open>The main loop calls \<^verbatim>\<open>frame\<close> once per environment sample.\<close>

fun frames :: "Env list \<Rightarrow> Program \<Rightarrow> error + Program" where
  "frames [] prog = Inr prog"
| "frames (env # envs) prog =
     (case frame env prog of Inl e \<Rightarrow> Inl e | Inr (prog', events) \<Rightarrow> frames envs prog')"

section \<open>Theorems\<close>

subsection \<open>Slider edits\<close>

lemma CLAMP_range: "lo \<le> hi \<Longrightarrow> lo \<le> CLAMP v lo hi \<and> CLAMP v lo hi \<le> hi"
  by (auto simp: CLAMP_def)

lemma round_dec_mono: "a \<le> b \<Longrightarrow> round_dec a d \<le> round_dec b d"
  unfolding round_dec_def
  by (intro divide_right_mono of_int_le_iff[THEN iffD2] round_mono mult_right_mono) auto

lemma coordToValue_eq:
  "coordToValue s x =
     round_dec (CLAMP ((1 + x) / sliderWidth * (s_max s - s_min s) + s_min s) (s_min s) (s_max s))
       (s_decimals s)"
  by (simp add: coordToValue_def)

text \<open>
  Claim C3, as stated, fails: \<^verbatim>\<open>coordToValue\<close> clamps and then rounds, and
  the rounding can leave the range when a bound is not itself a multiple of the
  decimal step. A slider with range \<open>[0.001, 0.004]\<close> and two decimals maps the
  coordinate \<open>-1\<close> to the raw value \<open>0.001\<close>, which is in range, and rounds it to
  \<open>0\<close>, which is below the minimum.
\<close>

theorem coordToValue_leaves_range_counterexample:
  "s_min \<lparr> s_title = ''c'', s_min = 0.001, s_max = 0.004, s_value = F_cutoff,
           s_decimals = 2, s_recompile = False \<rparr>
     < s_max \<lparr> s_title = ''c'', s_min = 0.001, s_max = 0.004, s_value = F_cutoff,
               s_decimals = 2, s_recompile = False \<rparr> \<and>
   coordToValue \<lparr> s_title = ''c'', s_min = 0.001, s_max = 0.004, s_value = F_cutoff,
                  s_decimals = 2, s_recompile = False \<rparr> (- 1) = 0 \<and>
   coordToValue \<lparr> s_title = ''c'', s_min = 0.001, s_max = 0.004, s_value = F_cutoff,
                  s_decimals = 2, s_recompile = False \<rparr> (- 1)
     < s_min \<lparr> s_title = ''c'', s_min = 0.001, s_max = 0.004, s_value = F_cutoff,
               s_decimals = 2, s_recompile = False \<rparr>"
  by (simp add: coordToValue_def CLAMP_def round_dec_def sliderWidth_def round_def)

text \<open>
  Claim C3, amended: for every slider with \<open>min < max\<close> whose minimum does not
  round down and whose maximum does not round up at the declared decimal count
  (so for every slider whose bounds are exact at that count), and every pointer
  x-coordinate, \<^verbatim>\<open>coordToValue\<close> returns a value in \<open>[min, max]\<close> that is a
  multiple of the decimal step, and it is the rounding of the clamped raw value:
  the clamp comes first.
\<close>

theorem coordToValue_clamped_then_rounded:
  assumes "s_min s < s_max s"
    and "s_min s \<le> round_dec (s_min s) (s_decimals s)"
    and "round_dec (s_max s) (s_decimals s) \<le> s_max s"
  shows "s_min s \<le> coordToValue s x \<and> coordToValue s x \<le> s_max s \<and>
         coordToValue s x =
           round_dec (CLAMP ((1 + x) / sliderWidth * (s_max s - s_min s) + s_min s) (s_min s) (s_max s))
                     (s_decimals s) \<and>
         (\<exists>k. coordToValue s x = real_of_int k / 10 powi s_decimals s)"
proof -
  let ?v = "CLAMP ((1 + x) / sliderWidth * (s_max s - s_min s) + s_min s) (s_min s) (s_max s)"
  have eq: "coordToValue s x = round_dec ?v (s_decimals s)"
    by (rule coordToValue_eq)
  have r: "s_min s \<le> ?v \<and> ?v \<le> s_max s"
    using assms(1) CLAMP_range[of "s_min s" "s_max s"] by simp
  have "s_min s \<le> round_dec ?v (s_decimals s)"
    using assms(2) round_dec_mono[of "s_min s" ?v "s_decimals s"] r by linarith
  moreover have "round_dec ?v (s_decimals s) \<le> s_max s"
    using assms(3) round_dec_mono[of ?v "s_max s" "s_decimals s"] r by linarith
  moreover have "\<exists>k. round_dec ?v (s_decimals s) = real_of_int k / 10 powi s_decimals s"
    unfolding round_dec_def by blast
  ultimately show ?thesis using eq by simp
qed

text \<open>
  The witness is the example of the specification: range \<open>[0, 1]\<close>, two decimals,
  and the coordinate whose raw value is \<open>1.236\<close>; the stored value is \<open>1\<close>.
\<close>

theorem coordToValue_clamped_then_rounded_witness:
  "(0 :: real) < 1 \<and> (0 :: real) \<le> round_dec 0 2 \<and> round_dec 1 2 \<le> (1 :: real) \<and>
   (1 + (1.236 * 0.65 - 1)) / sliderWidth * (1 - 0) + 0 = (1.236 :: real) \<and>
   coordToValue \<lparr> s_title = ''unit'', s_min = 0, s_max = 1, s_value = F_r,
                  s_decimals = 2, s_recompile = False \<rparr> (1.236 * 0.65 - 1) = 1 \<and>
   0 \<le> coordToValue \<lparr> s_title = ''unit'', s_min = 0, s_max = 1, s_value = F_r,
                       s_decimals = 2, s_recompile = False \<rparr> (1.236 * 0.65 - 1) \<and>
   coordToValue \<lparr> s_title = ''unit'', s_min = 0, s_max = 1, s_value = F_r,
                  s_decimals = 2, s_recompile = False \<rparr> (1.236 * 0.65 - 1) \<le> 1"
  using coordToValue_clamped_then_rounded
          [of "\<lparr> s_title = ''unit'', s_min = 0, s_max = 1, s_value = F_r,
                 s_decimals = 2, s_recompile = False \<rparr>" "1.236 * 0.65 - 1"]
  by (simp add: coordToValue_def CLAMP_def round_dec_def sliderWidth_def)

subsection \<open>The clamp of the formula compiler\<close>

lemma clampQuantum_order:
  assumes "1 \<le> n" "0 \<le> l" "clampQuantum n l m = (l', m')"
  shows "0 \<le> l' \<and> l' < n \<and> \<bar>m'\<bar> \<le> l' \<and> l' \<le> l"
  using assms by (auto simp: clampQuantum_def Let_def split: if_splits)

text \<open>
  Claim C4, as stated, fails: the clamp bounds \<open>l\<close> by \<open>n - 1\<close> and \<open>m\<close> by
  \<open>l\<close>, but nothing bounds \<open>n\<close>. For \<open>n = 31\<close>, \<open>l = 0\<close>, \<open>m = 0\<close> the clamp changes
  nothing, \<open>n - l = 31\<close> is not below the maximum term count \<open>30\<close>, and the
  assertion of line 262 fires (as does the one of line 148 in \<^verbatim>\<open>createHWaveFunc\<close>).
\<close>

theorem clamp_degree_bound_counterexample:
  "(1::int) \<le> 31 \<and> (0::int) \<le> 0 \<and>
   clampQuantum 31 0 0 = (0, 0) \<and>
   \<not> (31 - 0 < int maxHPolyTermCount) \<and>
   hydrogenWaveFuncStr 31 0 0 0 [] [] = Inl AssertionFailed \<and>
   createHWaveFunc 31 0 0 0 1 = Inl AssertionFailed"
  by (simp add: hydrogenWaveFuncStr_def createHWaveFunc_def clampQuantum_def maxHPolyTermCount_def)

text \<open>
  Claim C4, amended: for every \<open>n\<close> with \<open>1 \<le> n \<le> 29\<close> (the slider offers
  \<open>1 \<le> n \<le> 12\<close>), every \<open>l \<ge> 0\<close> and every integer \<open>m\<close>, the clamped \<open>l'\<close> and
  \<open>m'\<close> satisfy \<open>n > l' \<ge> |m'|\<close>, \<open>n - l' < 30\<close> and \<open>l' - 1 < 30\<close>; so
  \<^verbatim>\<open>createHWaveFunc\<close> accepts them and \<^verbatim>\<open>hydrogenWaveFuncStr\<close> returns its two
  strings: no assertion fires.
\<close>

theorem clamp_establishes_contract:
  assumes "1 \<le> n" "n \<le> 29" "0 \<le> l" "clampQuantum n l m = (l', m')"
  shows "n > l' \<and> l' \<ge> \<bar>m'\<bar> \<and> l' \<ge> 0 \<and>
         n - l' < int maxHPolyTermCount \<and> l' - 1 < int maxHPolyTermCount \<and>
         (\<exists>w. createHWaveFunc n l' m' phase bohr_radius = Inr w) \<and>
         hydrogenWaveFuncStr n l m phase amplitude phase_str =
           Inr (amplitude @ amplitude_text n l' m', phase_str @ phase_text m' phase)"
  using clampQuantum_order[OF assms(1,3,4)] assms
  by (auto simp: createHWaveFunc_def hydrogenWaveFuncStr_def maxHPolyTermCount_def)

theorem clamp_establishes_contract_witness:
  "(1 :: int) \<le> 12 \<and> (12 :: int) \<le> 29 \<and> (0 :: int) \<le> 20 \<and>
   clampQuantum 12 20 (- 15) = (11, - 11) \<and>
   (11 :: int) < 12 \<and> \<bar>- 11 :: int\<bar> \<le> 11 \<and>
   (\<exists>w. createHWaveFunc 12 11 (- 11) 0 1 = Inr w) \<and>
   hydrogenWaveFuncStr 12 20 (- 15) 0 [] [] =
     Inr (amplitude_text 12 11 (- 11), phase_text (- 11) 0)"
proof -
  have c: "clampQuantum 12 20 (- 15) = (11, - 11)"
    by (simp add: clampQuantum_def)
  show ?thesis
    using clamp_establishes_contract[of 12 20 "- 15" 11 "- 11" 0 1 "[]" "[]", OF _ _ _ c] c
    by simp
qed

subsection \<open>The orbital model and its compiled formula\<close>

lemma value_w_polar:
  "value_w w r theta phi =
     Complex (amplitude_w w r theta * cos (real_of_int (hw_m w) * phi + hw_phase w))
             (amplitude_w w r theta * sin (real_of_int (hw_m w) * phi + hw_phase w))"
  by (simp add: value_w_def amplitude_w_def Let_def)

lemma cmod_value_w: "cmod (value_w w r theta phi) = \<bar>amplitude_w w r theta\<bar>"
proof -
  have "cmod (Complex (a * cos p) (a * sin p)) = \<bar>a\<bar>" for a p :: real
  proof -
    have "(a * cos p)\<^sup>2 + (a * sin p)\<^sup>2 = a\<^sup>2"
      by (simp add: power_mult_distrib flip: distrib_left)
    then show ?thesis by (simp add: cmod_def)
  qed
  then show ?thesis by (simp add: value_w_polar)
qed

lemma laguerre_nth:
  "i < length coeff \<Longrightarrow>
   laguerre coeff k alpha ! i =
     (if int i \<le> k then (- 1) ^ i * real (nat (k + alpha) choose nat (k - int i)) / fact i
      else coeff ! i)"
  by (simp add: laguerre_def)

lemma sphericalHarmonics_nth:
  "i < length coeff \<Longrightarrow>
   sphericalHarmonics coeff l m ! i =
     (if int i \<le> l - \<bar>m\<bar>
      then sqrt ((2 * real_of_int l + 1) / (4 * pi) * fact_h (l - \<bar>m\<bar>) / fact_h (l + \<bar>m\<bar>))
           * legendre_coeff (nat l) (i + nat \<bar>m\<bar>) * (fact (i + nat \<bar>m\<bar>) / fact i)
      else coeff ! i)"
  by (simp add: sphericalHarmonics_def)

lemma sum_only_first:
  assumes "0 < (n::nat)" "\<And>i. 0 < i \<Longrightarrow> i < n \<Longrightarrow> f i = 0"
  shows "(\<Sum>i = 0..<n. f i) = (f 0 :: real)"
proof -
  have "(\<Sum>i = 0..<n. f i) = f 0 + (\<Sum>i = Suc 0..<n. f i)"
    using assms(1) by (simp add: sum.atLeast_Suc_lessThan)
  also have "(\<Sum>i = Suc 0..<n. f i) = 0"
    by (rule sum.neutral) (use assms(2) in auto)
  finally show ?thesis by simp
qed

lemma concat_only_first:
  assumes "0 < (n::nat)" "\<And>i. 0 < i \<Longrightarrow> i < n \<Longrightarrow> f i = []"
  shows "concat (map f [0..<n]) = f 0"
proof -
  have "[0..<n] = 0 # [Suc 0..<n]"
    using assms(1) by (simp add: upt_conv_Cons)
  moreover have "concat (map f [Suc 0..<n]) = []"
    using assms(2) by auto
  ultimately show ?thesis by simp
qed

lemma lag_sum_2_1:
  "(\<Sum>i = 0..<maxHPolyTermCount. laguerre (replicate maxHPolyTermCount 0) 0 3 ! i * x ^ i) = 1"
  by (subst sum_only_first) (simp_all add: laguerre_nth maxHPolyTermCount_def)

lemma sph_sum_1_1:
  assumes "\<bar>m\<bar> = 1"
  shows "(\<Sum>i = 0..<maxHPolyTermCount. sphericalHarmonics (replicate maxHPolyTermCount 0) 1 m ! i * x ^ i)
     = sqrt (3 / (8 * pi))"
  using assms
  by (subst sum_only_first)
     (simp_all add: sphericalHarmonics_nth maxHPolyTermCount_def legendre_coeff_def fact_h_def)

lemma lag_terms_2_1:
  "laguerre_terms 2 (laguerre (replicate maxHPolyTermCount 0) 0 3) = [Txt ''+'', FmtE 1]"
  unfolding laguerre_terms_def
  by (subst concat_only_first) (simp_all add: laguerre_nth maxHPolyTermCount_def)

lemma sph_terms_1_1:
  assumes "\<bar>m\<bar> = 1"
  shows "spherical_terms (sphericalHarmonics (replicate maxHPolyTermCount 0) 1 m)
     = [Txt ''+('', FmtE (sqrt (3 / (8 * pi))), Txt '')'']"
  unfolding spherical_terms_def using assms
  by (subst concat_only_first)
     (simp_all add: sphericalHarmonics_nth maxHPolyTermCount_def legendre_coeff_def fact_h_def)

lemma create_2_1:
  "\<bar>m\<bar> = 1 \<Longrightarrow> createHWaveFunc 2 1 m 0 1 = Inr \<lparr>
        hw_normalization = sqrt (1 / 24),
        hw_laguerreCoeff = laguerre (replicate maxHPolyTermCount 0) 0 3,
        hw_spheCoeff = sphericalHarmonics (replicate maxHPolyTermCount 0) 1 m,
        hw_phase = 0, hw_n = 2, hw_l = 1, hw_m = m, hw_a0 = 1 \<rparr>"
  by (auto simp: createHWaveFunc_def fact_h_def maxHPolyTermCount_def fact_numeral)

lemma amp_2_1:
  assumes "\<bar>m\<bar> = 1" "createHWaveFunc 2 1 m 0 1 = Inr w"
  shows "amplitude_w w 1 (pi / 6) =
           sqrt (1 / 24) * exp (- 1 / 2) * ((1 / 2) powi m * sqrt (3 / (8 * pi)))"
  using assms lag_sum_2_1[of 1] sph_sum_1_1[of m "cos (pi / 6)"]
  by (auto simp: create_2_1 amplitude_w_def value_rho_def sin_30)

lemma cmod_value_w_flip_m:
  assumes "sin theta \<noteq> 0"
  shows "cmod (value_w (w\<lparr>hw_m := - hw_m w\<rparr>) r theta phi) =
           cmod (value_w w r theta phi) * \<bar>sin theta\<bar> powi (- 2 * hw_m w)"
proof -
  have p: "sin theta powi (- hw_m w) = sin theta powi hw_m w * sin theta powi (- 2 * hw_m w)"
    using assms by (simp flip: power_int_add)
  have "amplitude_w (w\<lparr>hw_m := - hw_m w\<rparr>) r theta =
          amplitude_w w r theta * sin theta powi (- 2 * hw_m w)"
    by (simp add: amplitude_w_def value_rho_def p)
  then show ?thesis
    by (simp add: cmod_value_w abs_mult power_int_abs)
qed

text \<open>
  Claim C2 (for every valid \<open>(n, l, m)\<close> and every point, the modulus of
  \<^verbatim>\<open>value\<close> is the same for \<open>m\<close> and \<open>- m\<close>) does not hold of the code:
  \<^verbatim>\<open>value\<close> scales the angular sum by \<^verbatim>\<open>pow(sin(theta), w->m)\<close> with the
  signed \<open>m\<close>, where the formula compiler uses \<open>|m|\<close>. At \<open>n = 2\<close>, \<open>l = 1\<close>,
  \<open>r = 1\<close>, \<open>theta = pi/6\<close>, \<open>phi = 0\<close> the modulus for \<open>m = - 1\<close> is four times
  the modulus for \<open>m = 1\<close>, and neither is zero. (In general, by the lemma
  above, negating \<open>m\<close> in a wave function multiplies the modulus by
  \<open>|sin theta|^(-2m)\<close>.)
\<close>

theorem value_modulus_differs_under_sign_flip:
  "(case (createHWaveFunc 2 1 1 0 1, createHWaveFunc 2 1 (- 1) 0 1) of
      (Inr wp, Inr wn) \<Rightarrow>
        cmod (value_w wn 1 (pi / 6) 0) = 4 * cmod (value_w wp 1 (pi / 6) 0) \<and>
        cmod (value_w wp 1 (pi / 6) 0) \<noteq> 0
    | _ \<Rightarrow> False)"
proof -
  obtain wp where p: "createHWaveFunc 2 1 1 0 1 = Inr wp" by (simp add: create_2_1)
  obtain wn where n: "createHWaveFunc 2 1 (- 1) 0 1 = Inr wn" by (simp add: create_2_1)
  have ap: "amplitude_w wp 1 (pi / 6) = sqrt (1 / 24) * exp (- 1 / 2) * (1 / 2 * sqrt (3 / (8 * pi)))"
    using amp_2_1[OF _ p] by simp
  have an: "amplitude_w wn 1 (pi / 6) = sqrt (1 / 24) * exp (- 1 / 2) * (2 * sqrt (3 / (8 * pi)))"
    using amp_2_1[OF _ n] by (simp add: power_int_minus)
  have pos: "0 < sqrt (1 / 24) * exp (- 1 / 2) * sqrt (3 / (8 * pi))"
    by (simp add: real_sqrt_gt_zero)
  show ?thesis
    using pos by (simp add: p n cmod_value_w ap an abs_mult)
qed

text \<open>
  The syntax trees print as the emitted text.
\<close>

lemma flat_simps [simp]:
  "flat [] = []"
  "flat (t # ts) = pieces t @ flat ts"
  "flat (xs @ ys) = flat xs @ flat ys"
  by (simp_all add: flat_def)

lemma flat_concat: "flat (concat xss) = concat (map flat xss)"
  by (induction xss) simp_all

lemma concat_map_concat_map:
  "concat (map h (concat (map f xs))) = concat (map (\<lambda>i. concat (map h (f i))) xs)"
  by (induction xs) simp_all

lemma flat_rho: "flat (render (rho_expr n)) = flat (rho_str n)"
  by (simp add: rho_expr_def rho_str_def)

lemma flat_laguerre_terms:
  "flat (concat (map (\<lambda>t. [Txt ''+''] @ render t) (laguerre_term_exprs n c))) =
   flat (laguerre_terms n c)"
  unfolding laguerre_term_exprs_def laguerre_terms_def concat_map_concat_map flat_concat map_map
  by (rule arg_cong[where f = concat], rule map_cong) (auto simp: flat_rho)

lemma flat_spherical_terms:
  "flat (concat (map (\<lambda>t. [Txt ''+''] @ render t) (spherical_term_exprs c))) =
   flat (spherical_terms c)"
  unfolding spherical_term_exprs_def spherical_terms_def concat_map_concat_map flat_concat map_map
  by (rule arg_cong[where f = concat], rule map_cong) auto

lemma render_amplitude_expr:
  "flat (render (amplitude_expr n l m)) = flat (amplitude_text n l m)"
  using flat_laguerre_terms[of n] flat_spherical_terms flat_rho[of n]
  by (simp add: amplitude_expr_def amplitude_text_def Let_def rho_expr_def rho_str_def)

lemma render_phase_expr:
  "flat (render (phase_expr m phase)) = flat (phase_text m phase)"
  by (simp add: phase_expr_def phase_text_def)

text \<open>
  Evaluation of the emitted sums and of the \<^verbatim>\<open>sign\<close>/\<^verbatim>\<open>pow\<close>/\<^verbatim>\<open>abs\<close> idiom, by
  which the compiler writes an integer power of a possibly negative base.
\<close>

lemma point_env_simps [simp]:
  "point_env r theta phi ''r'' = r"
  "point_env r theta phi ''sin_theta'' = sin theta"
  "point_env r theta phi ''cos_theta'' = cos theta"
  "point_env r theta phi ''phi'' = phi"
  by (simp_all add: point_env_def)

lemma lift2_Some [simp]: "lift2 f (Some x) (Some y) = Some (f x y)"
  by (simp add: lift2_def)

lemma sum_terms_append:
  "sum_terms (as @ bs) = lift2 (+) (sum_terms as) (sum_terms bs)"
  by (induction as) (auto simp: lift2_def split: option.splits)

lemma sum_terms_concat:
  assumes "\<And>i. i \<in> set xs \<Longrightarrow> sum_terms (map (glsl_eval env) (f i)) = Some (g i)"
  shows "sum_terms (map (glsl_eval env) (concat (map f xs))) = Some (sum_list (map g xs))"
  using assms by (induction xs) (simp_all add: sum_terms_append)

lemma glsl_pow_nat:
  assumes "0 \<le> x" "0 < k"
  shows "glsl_pow x (real k) = Some (x ^ k)"
  using assms by (auto simp: glsl_pow_def powr_realpow')

lemma glsl_pow_pos:
  assumes "0 < x"
  shows "glsl_pow x (real k) = Some (x ^ k)"
  using assms by (auto simp: glsl_pow_def powr_realpow)

lemma sgn_abs_power_odd:
  assumes "odd k"
  shows "sgn x * \<bar>x\<bar> ^ k = (x :: real) ^ k"
proof (cases "x < 0")
  case True
  then have "sgn x = - 1" "\<bar>x\<bar> = - x" by simp_all
  then show ?thesis using assms by simp
next
  case False
  then have "x = 0 \<or> 0 < x" by linarith
  then show ?thesis
  proof
    assume "x = 0"
    then show ?thesis using assms by (cases k) auto
  next
    assume "0 < x"
    then show ?thesis by simp
  qed
qed

lemma abs_power_even:
  assumes "even k"
  shows "\<bar>x\<bar> ^ k = (x :: real) ^ k"
  using assms by (simp add: power_even_abs)

lemma sum_list_upt_sum: "sum_list (map g [0..<n]) = (\<Sum>i = 0..<n. (g i :: real))"
  by (simp add: interv_sum_list_conv_sum_set_nat)

lemma eval_laguerre_sum:
  assumes "0 < rho" "glsl_eval env (rho_expr n) = Some rho" "c ! 0 \<noteq> 0"
  shows "glsl_eval env (GSum (laguerre_term_exprs n c)) =
           Some (\<Sum>i = 0..<maxHPolyTermCount. c ! i * rho ^ i)"
proof -
  let ?f = "\<lambda>i. if c ! i = 0.0 then []
                 else [if i \<noteq> 0
                       then GMul (GNum (c ! i)) (GPow (rho_expr n) (GInt (int i)))
                       else GNum (c ! i)]"
  have ne: "laguerre_term_exprs n c \<noteq> []"
  proof -
    have "[0..<maxHPolyTermCount] = 0 # [Suc 0..<maxHPolyTermCount]"
      by (simp add: maxHPolyTermCount_def upt_conv_Cons)
    then show ?thesis
      using assms(3) by (simp add: laguerre_term_exprs_def)
  qed
  have t: "sum_terms (map (glsl_eval env) (?f i)) = Some (c ! i * rho ^ i)" for i
    using assms(1,2) glsl_pow_pos[of rho i] by (cases "i = 0") (auto simp: lift2_def)
  have "sum_terms (map (glsl_eval env) (concat (map ?f [0..<maxHPolyTermCount]))) =
          Some (sum_list (map (\<lambda>i. c ! i * rho ^ i) [0..<maxHPolyTermCount]))"
    by (rule sum_terms_concat) (rule t)
  then show ?thesis
    using ne by (simp add: laguerre_term_exprs_def sum_list_upt_sum)
qed

lemma concat_map_nonempty:
  assumes "k \<in> set xs" "f k \<noteq> []"
  shows "concat (map f xs) \<noteq> []"
  using assms by (induction xs) auto

lemma eval_spherical_sum:
  assumes "env ''cos_theta'' = x" "k < maxHPolyTermCount" "c ! k \<noteq> 0"
  shows "glsl_eval env (GSum (spherical_term_exprs c)) =
           Some (\<Sum>i = 0..<maxHPolyTermCount. c ! i * x ^ i)"
proof -
  let ?f = "\<lambda>i. if c ! i = 0.0 then []
                 else [if i \<noteq> 0
                       then GMul (GMul (GParen (GNum (c ! i)))
                                       (if i mod 2 \<noteq> 0 then GSign (GVar ''cos_theta'') else GOne))
                                 (GPow (GAbs (GVar ''cos_theta'')) (GInt (int i)))
                       else GParen (GNum (c ! i))]"
  have ne: "spherical_term_exprs c \<noteq> []"
    unfolding spherical_term_exprs_def
  proof (rule concat_map_nonempty[of k])
    show "k \<in> set [0..<maxHPolyTermCount]" using assms(2) by simp
    show "?f k \<noteq> []" using assms(3) by simp
  qed
  have t: "sum_terms (map (glsl_eval env) (?f i)) = Some (c ! i * x ^ i)" for i
  proof (cases "i = 0 \<or> c ! i = 0")
    case True
    then show ?thesis by auto
  next
    case False
    then have i: "0 < i" "c ! i \<noteq> 0" by auto
    have p: "glsl_pow \<bar>x\<bar> (real i) = Some (\<bar>x\<bar> ^ i)"
      by (rule glsl_pow_nat) (use i in auto)
    have e: "glsl_eval env (GPow (GAbs (GVar ''cos_theta'')) (GInt (int i))) = Some (\<bar>x\<bar> ^ i)"
      using p assms(1) by simp
    show ?thesis
    proof (cases "odd i")
      case True
      then have o: "i mod 2 \<noteq> 0" by presburger
      have "c ! i * sgn x * \<bar>x\<bar> ^ i = c ! i * x ^ i"
        using sgn_abs_power_odd[OF True, of x] by (simp add: mult.assoc)
      then show ?thesis
        using i o e assms(1) by simp
    next
      case False
      then have o: "i mod 2 = 0" by presburger
      have "c ! i * 1 * \<bar>x\<bar> ^ i = c ! i * x ^ i"
        using abs_power_even[of i x] False by simp
      then show ?thesis
        using i o e by simp
    qed
  qed
  have "sum_terms (map (glsl_eval env) (concat (map ?f [0..<maxHPolyTermCount]))) =
          Some (sum_list (map (\<lambda>i. c ! i * x ^ i) [0..<maxHPolyTermCount]))"
    by (rule sum_terms_concat) (rule t)
  then show ?thesis
    using ne by (simp add: spherical_term_exprs_def sum_list_upt_sum)
qed

lemma eval_sin_factor:
  assumes "env ''sin_theta'' = s" "m \<noteq> 0"
  shows "lift2 (*) (glsl_eval env (if \<bar>m\<bar> mod 2 \<noteq> 0 then GSign (GVar ''sin_theta'') else GOne))
           (glsl_eval env (GPow (GAbs (GVar ''sin_theta'')) (GInt \<bar>m\<bar>))) = Some (s ^ nat \<bar>m\<bar>)"
proof -
  define k where "k = nat \<bar>m\<bar>"
  have k: "\<bar>m\<bar> = int k" "0 < k"
    using assms(2) by (simp_all add: k_def)
  have p: "glsl_pow \<bar>s\<bar> (real k) = Some (\<bar>s\<bar> ^ k)"
    by (rule glsl_pow_nat) (use k in auto)
  show ?thesis
  proof (cases "odd k")
    case True
    then have "\<bar>m\<bar> mod 2 \<noteq> 0" using k by presburger
    then show ?thesis
      using k p assms(1) sgn_abs_power_odd[OF True, of s] by simp
  next
    case False
    then have "\<not> \<bar>m\<bar> mod 2 \<noteq> 0" using k by presburger
    then show ?thesis
      using k p assms(1) abs_power_even[of k s] False by simp
  qed
qed

text \<open>
  For \<open>1 \<le> n \<le> 12\<close>, \<open>0 \<le> l < n\<close>, \<open>|m| \<le> l\<close> and \<open>r > 0\<close> the compiled
  amplitude evaluates to the brightness factor \<open>1 + 2 n^2.5\<close> times the amplitude
  that \<^verbatim>\<open>value\<close> would compute with \<open>|m|\<close> in place of \<open>m\<close>, and the compiled phase
  to \<open>m phi + phase\<close>. Hence for \<open>m \<ge> 0\<close> the compiled pair is, in polar form,
  the brightness factor times \<^verbatim>\<open>value\<close>.
\<close>

lemma laguerre_first_nonzero:
  assumes "0 \<le> k" "0 \<le> alpha"
  shows "laguerre (replicate maxHPolyTermCount 0) k alpha ! 0 \<noteq> 0"
proof -
  have "nat k \<le> nat (k + alpha)" using assms by simp
  then have "0 < nat (k + alpha) choose nat k" by (rule zero_less_binomial)
  then have "0 < real (nat (k + alpha) choose nat k)" by simp
  moreover have "laguerre (replicate maxHPolyTermCount 0) k alpha ! 0 =
                   real (nat (k + alpha) choose nat k)"
    using assms(1) by (simp add: laguerre_def maxHPolyTermCount_def upt_conv_Cons)
  ultimately show ?thesis by linarith
qed

lemma legendre_coeff_top: "0 < legendre_coeff l l"
  by (simp add: legendre_coeff_def zero_less_binomial)

lemma sphericalHarmonics_top_nonzero:
  assumes "\<bar>m\<bar> \<le> l" "l < int maxHPolyTermCount"
  shows "sphericalHarmonics (replicate maxHPolyTermCount 0) l m ! nat (l - \<bar>m\<bar>) \<noteq> 0"
proof -
  have i: "nat (l - \<bar>m\<bar>) < maxHPolyTermCount" using assms by simp
  have s: "nat (l - \<bar>m\<bar>) + nat \<bar>m\<bar> = nat l" using assms by simp
  have "0 < (2 * real_of_int l + 1) / (4 * pi) * fact_h (l - \<bar>m\<bar>) / fact_h (l + \<bar>m\<bar>)"
    using assms by (simp add: fact_h_def)
  then have "0 < sqrt ((2 * real_of_int l + 1) / (4 * pi) * fact_h (l - \<bar>m\<bar>) / fact_h (l + \<bar>m\<bar>))"
    by simp
  moreover have "0 < legendre_coeff (nat l) (nat l)" by (rule legendre_coeff_top)
  moreover have "0 < (fact (nat l) :: real) / fact (nat (l - \<bar>m\<bar>))" by simp
  ultimately have "0 < sqrt ((2 * real_of_int l + 1) / (4 * pi) * fact_h (l - \<bar>m\<bar>) / fact_h (l + \<bar>m\<bar>))
                   * legendre_coeff (nat l) (nat l) * (fact (nat l) / fact (nat (l - \<bar>m\<bar>)))"
    by simp
  moreover have "sphericalHarmonics (replicate maxHPolyTermCount 0) l m ! nat (l - \<bar>m\<bar>) =
      sqrt ((2 * real_of_int l + 1) / (4 * pi) * fact_h (l - \<bar>m\<bar>) / fact_h (l + \<bar>m\<bar>))
                   * legendre_coeff (nat l) (nat l) * (fact (nat l) / fact (nat (l - \<bar>m\<bar>)))"
    using i assms s by (simp add: sphericalHarmonics_def)
  ultimately show ?thesis by linarith
qed

lemma eval_compiled:
  assumes "1 \<le> n" "n \<le> 12" "0 \<le> l" "l < n" "\<bar>m\<bar> \<le> l" "0 < r"
  shows "\<exists>w. createHWaveFunc n l m phase 1 = Inr w \<and>
           glsl_eval (point_env r theta phi) (amplitude_expr n l m) =
             Some ((1 + 2 * real_of_int n powr 2.5) * amplitude_w (w\<lparr>hw_m := \<bar>m\<bar>\<rparr>) r theta) \<and>
           glsl_eval (point_env r theta phi) (phase_expr m phase) =
             Some (real_of_int (hw_m w) * phi + hw_phase w)"
proof -
  let ?env = "point_env r theta phi"
  let ?lc = "laguerre (replicate maxHPolyTermCount 0) (n - l - 1) (2 * l + 1)"
  let ?sc = "sphericalHarmonics (replicate maxHPolyTermCount 0) l m"
  let ?C = "sqrt ((2 / (real_of_int n * 1)) ^ 3 * fact_h (n - l - 1) / (2 * real_of_int n * fact_h (n + l)))"
  let ?B = "1 + 2 * real_of_int n powr 2.5"
  define rho where "rho = 2 / 1 / real_of_int n * r"
  let ?L = "\<Sum>i = 0..<maxHPolyTermCount. ?lc ! i * rho ^ i"
  let ?Y = "\<Sum>i = 0..<maxHPolyTermCount. ?sc ! i * cos theta ^ i"
  define w where "w = \<lparr> hw_normalization = ?C, hw_laguerreCoeff = ?lc, hw_spheCoeff = ?sc,
        hw_phase = phase, hw_n = n, hw_l = l, hw_m = m, hw_a0 = 1 \<rparr>"
  have cw: "createHWaveFunc n l m phase 1 = Inr w"
    using assms by (simp add: createHWaveFunc_def w_def maxHPolyTermCount_def)
  have rho_pos: "0 < rho"
    using assms(1,6) by (simp add: rho_def)
  have vr: "value_rho (w\<lparr>hw_m := \<bar>m\<bar>\<rparr>) r = rho"
    by (simp add: value_rho_def w_def rho_def)
  have e_rho: "glsl_eval ?env (rho_expr n) = Some rho"
    by (simp add: rho_expr_def rho_def)
  have e_exp: "glsl_eval ?env (GExp (GDiv (GMul (GNeg (GNum (2 / 1 / real_of_int n))) (GVar ''r'')) GTwo))
                = Some (exp (- rho / 2))"
    by (simp add: rho_def)
  obtain k where k: "l = int k"
    using assms(3) nonneg_int_cases by blast
  have e_pow: "glsl_eval ?env (GPow (rho_expr n) (GInt l)) = Some (rho powi l)"
    using e_rho glsl_pow_pos[OF rho_pos, of k] by (simp add: k)
  have e_L: "glsl_eval ?env (GSum (laguerre_term_exprs n ?lc)) = Some ?L"
    by (rule eval_laguerre_sum[OF rho_pos e_rho])
       (rule laguerre_first_nonzero, use assms in auto)
  have e_Y: "glsl_eval ?env (GSum (spherical_term_exprs ?sc)) = Some ?Y"
  proof (rule eval_spherical_sum[where k = "nat (l - \<bar>m\<bar>)"])
    show "?env ''cos_theta'' = cos theta" by simp
    show "nat (l - \<bar>m\<bar>) < maxHPolyTermCount"
      using assms by (simp add: maxHPolyTermCount_def)
    show "?sc ! nat (l - \<bar>m\<bar>) \<noteq> 0"
      by (rule sphericalHarmonics_top_nonzero) (use assms in \<open>auto simp: maxHPolyTermCount_def\<close>)
  qed
  define radial where "radial =
            GMul (GMul (GMul (GMul
              (GNum (sqrt ((2.0 / (real_of_int n * 1.0)) ^ 3 *
                           fact_h (n - l - 1) / (2 * real_of_int n * fact_h (n + l)))))
              (GNum (1.0 + 2.0 * (real_of_int n powr 2.5))))
              (GExp (GDiv (GMul (GNeg (GNum (2.0 / 1.0 / real_of_int n))) (GVar ''r'')) GTwo)))
              (GPow (rho_expr n) (GInt l)))
              (GSum (laguerre_term_exprs n ?lc))"
  define angular where "angular = GSum (spherical_term_exprs ?sc)"
  define sgn_part where "sgn_part = (if \<bar>m\<bar> mod 2 \<noteq> 0 then GSign (GVar ''sin_theta'') else GOne)"
  define pow_part where "pow_part = GPow (GAbs (GVar ''sin_theta'')) (GInt \<bar>m\<bar>)"
  define R where "R = ?C * ?B * exp (- rho / 2) * (rho powi l) * ?L"
  have ae: "amplitude_expr n l m =
              (if m \<noteq> 0 then GMul (GMul (GMul radial sgn_part) pow_part) angular
               else GMul radial angular)"
    by (simp add: amplitude_expr_def Let_def radial_def angular_def sgn_part_def pow_part_def)
  have e_radial: "glsl_eval ?env radial = Some R"
    using e_exp e_pow e_L by (simp add: radial_def R_def)
  have e_angular: "glsl_eval ?env angular = Some ?Y"
    using e_Y by (simp add: angular_def)
  have e_amp: "glsl_eval ?env (amplitude_expr n l m) = Some (R * (sin theta ^ nat \<bar>m\<bar>) * ?Y)"
  proof (cases "m = 0")
    case True
    then show ?thesis
      using ae e_radial e_angular by simp
  next
    case False
    have sf: "lift2 (*) (glsl_eval ?env sgn_part) (glsl_eval ?env pow_part) = Some (sin theta ^ nat \<bar>m\<bar>)"
      unfolding sgn_part_def pow_part_def by (rule eval_sin_factor) (use False in auto)
    obtain s1 s2 where s: "glsl_eval ?env sgn_part = Some s1" "glsl_eval ?env pow_part = Some s2"
      "s1 * s2 = sin theta ^ nat \<bar>m\<bar>"
      using sf by (auto simp: lift2_def split: option.splits)
    have "glsl_eval ?env (amplitude_expr n l m) = Some (R * s1 * s2 * ?Y)"
      using False by (simp add: ae e_radial e_angular s(1,2))
    moreover have "R * s1 * s2 = R * (sin theta ^ nat \<bar>m\<bar>)"
      using s(3) by (simp add: mult.assoc)
    ultimately show ?thesis by simp
  qed
  have e_phase: "glsl_eval ?env (phase_expr m phase) = Some (real_of_int m * phi + phase)"
    by (simp add: phase_expr_def)
  have pw: "sin theta powi \<bar>m\<bar> = sin theta ^ nat \<bar>m\<bar>"
    by (simp add: power_int_def)
  have aw: "?B * amplitude_w (w\<lparr>hw_m := \<bar>m\<bar>\<rparr>) r theta = R * (sin theta ^ nat \<bar>m\<bar>) * ?Y"
    unfolding amplitude_w_def vr by (simp add: w_def R_def pw)
  show ?thesis
    using cw e_amp e_phase aw by (intro exI[of _ w] conjI) (simp_all add: w_def)
qed

lemma compiled_matches_value_nonneg_m:
  assumes "1 \<le> n" "n \<le> 12" "0 \<le> l" "l < n" "0 \<le> m" "m \<le> l" "0 < r"
  shows "\<exists>w a p. createHWaveFunc n l m phase 1 = Inr w \<and>
           glsl_eval (point_env r theta phi) (amplitude_expr n l m) = Some a \<and>
           glsl_eval (point_env r theta phi) (phase_expr m phase) = Some p \<and>
           Complex (a * cos p) (a * sin p) =
             complex_of_real (1 + 2 * real_of_int n powr 2.5) * value_w w r theta phi"
proof -
  obtain w where w: "createHWaveFunc n l m phase 1 = Inr w"
    "glsl_eval (point_env r theta phi) (amplitude_expr n l m) =
             Some ((1 + 2 * real_of_int n powr 2.5) * amplitude_w (w\<lparr>hw_m := \<bar>m\<bar>\<rparr>) r theta)"
    "glsl_eval (point_env r theta phi) (phase_expr m phase) =
             Some (real_of_int (hw_m w) * phi + hw_phase w)"
    using eval_compiled[of n l m r phase theta phi] assms by auto
  have "hw_m w = m" using w(1) by (auto simp: createHWaveFunc_def split: if_splits)
  then have "w\<lparr>hw_m := \<bar>m\<bar>\<rparr> = w" using assms(5) by simp
  then have "Complex (((1 + 2 * real_of_int n powr 2.5) * amplitude_w (w\<lparr>hw_m := \<bar>m\<bar>\<rparr>) r theta) *
                      cos (real_of_int (hw_m w) * phi + hw_phase w))
                     (((1 + 2 * real_of_int n powr 2.5) * amplitude_w (w\<lparr>hw_m := \<bar>m\<bar>\<rparr>) r theta) *
                      sin (real_of_int (hw_m w) * phi + hw_phase w)) =
             complex_of_real (1 + 2 * real_of_int n powr 2.5) * value_w w r theta phi"
    by (simp add: value_w_polar complex_eq_iff)
  then show ?thesis using w by blast
qed

text \<open>
  Claim C1 (the compiled amplitude and phase expressions reproduce \<^verbatim>\<open>value\<close>
  for every valid \<open>(n, l, m)\<close>) does not hold of the code for \<open>m < 0\<close>, by the
  same signed exponent. For \<open>n = 2\<close>, \<open>l = 1\<close>, \<open>m = - 1\<close>, phase \<open>0\<close> the
  compiler emits the angular factor \<^verbatim>\<open>sign(sin_theta)*pow(abs(sin_theta), 1.0)\<close>,
  which is \<open>1/2\<close> at \<open>theta = pi/6\<close>, while \<^verbatim>\<open>value\<close> multiplies by
  \<open>sin(theta)^(-1) = 2\<close> there. The theorem gives the emitted text, states that
  it is the printed form of the syntax trees, and evaluates both sides at
  \<open>r = 1\<close>, \<open>theta = pi/6\<close>, \<open>phi = 0\<close>: the compiled amplitude is the brightness
  factor \<open>1 + 2 * 2^2.5\<close> times \<open>sqrt(1/24) exp(-1/2) (1/2) sqrt(3/(8 pi))\<close> with
  phase \<open>0\<close>, and \<^verbatim>\<open>value\<close> is \<open>sqrt(1/24) exp(-1/2) 2 sqrt(3/(8 pi))\<close>, four
  times as much once the brightness factor is divided out.
\<close>

theorem compiled_text_and_value_at_negative_m:
  "hydrogenWaveFuncStr 2 1 (- 1) 0 [] [] =
     Inr ([FmtE (sqrt (1 / 24)), Txt ''*'', FmtE (1 + 2 * 2 powr 2.5), Txt ''*'',
           Txt ''exp(-'', FmtE 1, Txt ''*r'', Txt ''/2.0)*pow('', FmtE 1, Txt ''*r'',
           Txt '', '', FmtI 1, Txt ''.0)'', Txt ''*'',
           Txt ''('', Txt ''+'', FmtE 1, Txt '')'', Txt ''*'',
           Txt ''sign(sin_theta)'', Txt ''*pow(abs(sin_theta), '', FmtI 1, Txt ''.0)*'',
           Txt ''('', Txt ''+('', FmtE (sqrt (3 / (8 * pi))), Txt '')'', Txt '')''],
          [FmtI (- 1), Txt ''.0*phi + ('', FmtE 0, Txt '')'']) \<and>
   hydrogenWaveFuncStr 2 1 (- 1) 0 [] [] =
     Inr (amplitude_text 2 1 (- 1), phase_text (- 1) 0) \<and>
   flat (amplitude_text 2 1 (- 1)) = flat (render (amplitude_expr 2 1 (- 1))) \<and>
   flat (phase_text (- 1) 0) = flat (render (phase_expr (- 1) 0)) \<and>
   glsl_eval (point_env 1 (pi / 6) 0) (amplitude_expr 2 1 (- 1)) =
     Some ((1 + 2 * 2 powr 2.5) *
           (sqrt (1 / 24) * exp (- 1 / 2) * (1 / 2 * sqrt (3 / (8 * pi))))) \<and>
   glsl_eval (point_env 1 (pi / 6) 0) (phase_expr (- 1) 0) = Some 0 \<and>
   (case createHWaveFunc 2 1 (- 1) 0 1 of
      Inr w \<Rightarrow> value_w w 1 (pi / 6) 0 =
                 Complex (sqrt (1 / 24) * exp (- 1 / 2) * (2 * sqrt (3 / (8 * pi)))) 0
    | Inl e \<Rightarrow> False)"
proof -
  obtain wn where n: "createHWaveFunc 2 1 (- 1) 0 1 = Inr wn" by (simp add: create_2_1)
  have an: "amplitude_w wn 1 (pi / 6) = sqrt (1 / 24) * exp (- 1 / 2) * (2 * sqrt (3 / (8 * pi)))"
    using amp_2_1[OF _ n] by (simp add: power_int_minus)
  have m: "hw_m wn = - 1" "hw_phase wn = 0" using n by (auto simp: create_2_1)
  have t: "amplitude_text 2 1 (- 1) =
    [FmtE (sqrt (1 / 24)), Txt ''*'', FmtE (1 + 2 * 2 powr 2.5), Txt ''*'',
           Txt ''exp(-'', FmtE 1, Txt ''*r'', Txt ''/2.0)*pow('', FmtE 1, Txt ''*r'',
           Txt '', '', FmtI 1, Txt ''.0)'', Txt ''*'',
           Txt ''('', Txt ''+'', FmtE 1, Txt '')'', Txt ''*'',
           Txt ''sign(sin_theta)'', Txt ''*pow(abs(sin_theta), '', FmtI 1, Txt ''.0)*'',
           Txt ''('', Txt ''+('', FmtE (sqrt (3 / (8 * pi))), Txt '')'', Txt '')'']"
    using lag_terms_2_1 sph_terms_1_1[of "- 1"]
    by (simp add: amplitude_text_def rho_str_def fact_h_def fact_numeral)
  have h: "hydrogenWaveFuncStr 2 1 (- 1) 0 [] [] = Inr (amplitude_text 2 1 (- 1), phase_text (- 1) 0)"
    by (simp add: hydrogenWaveFuncStr_def clampQuantum_def maxHPolyTermCount_def)
  have c1: "hydrogenWaveFuncStr 2 1 (- 1) 0 [] [] =
     Inr ([FmtE (sqrt (1 / 24)), Txt ''*'', FmtE (1 + 2 * 2 powr 2.5), Txt ''*'',
           Txt ''exp(-'', FmtE 1, Txt ''*r'', Txt ''/2.0)*pow('', FmtE 1, Txt ''*r'',
           Txt '', '', FmtI 1, Txt ''.0)'', Txt ''*'',
           Txt ''('', Txt ''+'', FmtE 1, Txt '')'', Txt ''*'',
           Txt ''sign(sin_theta)'', Txt ''*pow(abs(sin_theta), '', FmtI 1, Txt ''.0)*'',
           Txt ''('', Txt ''+('', FmtE (sqrt (3 / (8 * pi))), Txt '')'', Txt '')''],
          [FmtI (- 1), Txt ''.0*phi + ('', FmtE 0, Txt '')''])"
    by (simp add: h t phase_text_def)
  have c3: "flat (amplitude_text 2 1 (- 1)) = flat (render (amplitude_expr 2 1 (- 1)))"
    by (simp add: render_amplitude_expr)
  have c4: "flat (phase_text (- 1) 0) = flat (render (phase_expr (- 1) 0))"
    by (simp add: render_phase_expr)
  obtain w where w: "createHWaveFunc 2 1 (- 1) 0 1 = Inr w"
    "glsl_eval (point_env 1 (pi / 6) 0) (amplitude_expr 2 1 (- 1)) =
       Some ((1 + 2 * real_of_int 2 powr 2.5) * amplitude_w (w\<lparr>hw_m := \<bar>- 1\<bar>\<rparr>) 1 (pi / 6))"
    "glsl_eval (point_env 1 (pi / 6) 0) (phase_expr (- 1) 0) =
       Some (real_of_int (hw_m w) * 0 + hw_phase w)"
    using eval_compiled[of 2 1 "- 1" 1 0 "pi / 6" 0] by auto
  have ww: "w = wn" using w(1) n by simp
  have aw: "amplitude_w (wn\<lparr>hw_m := 1\<rparr>) 1 (pi / 6) =
              sqrt (1 / 24) * exp (- 1 / 2) * (1 / 2 * sqrt (3 / (8 * pi)))"
    using n lag_sum_2_1[of 1] sph_sum_1_1[of "- 1" "cos (pi / 6)"]
    by (auto simp: create_2_1 amplitude_w_def value_rho_def sin_30)
  have c5: "glsl_eval (point_env 1 (pi / 6) 0) (amplitude_expr 2 1 (- 1)) =
     Some ((1 + 2 * 2 powr 2.5) *
           (sqrt (1 / 24) * exp (- 1 / 2) * (1 / 2 * sqrt (3 / (8 * pi)))))"
    using w(2) aw by (simp add: ww)
  have c6: "glsl_eval (point_env 1 (pi / 6) 0) (phase_expr (- 1) 0) = Some 0"
    using w(3) m by (simp add: ww)
  have c7: "(case createHWaveFunc 2 1 (- 1) 0 1 of
      Inr w \<Rightarrow> value_w w 1 (pi / 6) 0 =
                 Complex (sqrt (1 / 24) * exp (- 1 / 2) * (2 * sqrt (3 / (8 * pi)))) 0
    | Inl e \<Rightarrow> False)"
    by (simp add: n value_w_polar an m)
  show ?thesis
    using c1 h c3 c4 c5 c6 c7 by blast
qed



subsection \<open>The accumulation macro\<close>

lemma concat_map_upt_split:
  assumes "i < n"
  shows "concat (map f [0..<n]) = concat (map f [0..<i]) @ f i @ concat (map f [Suc i..<n])"
proof -
  have "[0..<n] = [0..<i] @ [i..<n]"
    using assms upt_add_eq_append[of 0 i "n - i"] by simp
  moreover have "[i..<n] = i # [Suc i..<n]"
    using assms by (simp add: upt_conv_Cons)
  ultimately show ?thesis by simp
qed


lemma createVolumeShader_Inr:
  assumes "createVolumeShader sample_count complex_color absorption cutoff waves = Inr shd"
  shows "\<exists>strs. hydrogen_strings waves = Inr strs \<and> waves \<noteq> [] \<and>
           shd_vs_src shd = vs_src \<and>
           shd_fs_src shd =
             [[Txt ''#version 120\<newline>'',
               Txt ''#define SAMPLE_COUNT '', FmtI sample_count, Txt ''\<newline>'',
               Txt ''#define COMPLEX_COLOR '', FmtI (if complex_color then 1 else 0), Txt ''\<newline>'',
               Txt ''#define ABSORPTION_MUL '', FmtE absorption, Txt ''\<newline>'',
               Txt ''#define CUTOFF '', FmtE cutoff, Txt ''\<newline>''] @
              calc_total_wavefunc_define waves strs @ [Txt ''\<newline>''],
              [Txt fs_template_src]]"
  using assms
  by (auto simp: createVolumeShader_def Let_def split: if_splits sum.splits)


lemma concat_map_if_filter:
  "concat (map (\<lambda>i. if P i then [] else f i) xs) = concat (map f (filter (\<lambda>i. \<not> P i) xs))"
  by (induction xs) auto

lemma macro_as_filter:
  "calc_total_wavefunc_define waves strs =
     [Txt ''#define CALC_TOTAL_WAVEFUNC ''] @
     concat (map (\<lambda>i. wave_chunk i (waves ! i) (strs ! i))
                 (filter (\<lambda>i. 0.001 < wave_amplitude (waves ! i)) [0..<length waves]))"
  unfolding calc_total_wavefunc_define_def
  by (subst concat_map_if_filter) (simp add: not_le)

lemma hydrogen_strings_ok:
  assumes "\<And>w. w \<in> set ws \<Longrightarrow>
     \<exists>s. hydrogenWaveFuncStr (trunc_int (wave_n w)) (trunc_int (wave_l w)) (trunc_int (wave_m w))
            (wave_phase w) [] [] = Inr s"
  shows "\<exists>ss. hydrogen_strings ws = Inr ss"
  using assms
proof (induction ws)
  case Nil
  then show ?case by simp
next
  case (Cons w ws)
  obtain s where "hydrogenWaveFuncStr (trunc_int (wave_n w)) (trunc_int (wave_l w)) (trunc_int (wave_m w))
            (wave_phase w) [] [] = Inr s"
    using Cons.prems[of w] by auto
  moreover obtain ss where "hydrogen_strings ws = Inr ss"
    using Cons.IH Cons.prems by auto
  ultimately show ?case by simp
qed

lemma hydrogenWaveFuncStr_ground:
  "\<exists>s. hydrogenWaveFuncStr (trunc_int 1) (trunc_int 0) (trunc_int 0) ph a p = Inr s"
  by (simp add: hydrogenWaveFuncStr_def trunc_int_def clampQuantum_def maxHPolyTermCount_def)

lemma createVolumeShader_ground:
  assumes "ws \<noteq> []"
    and "\<And>w. w \<in> set ws \<Longrightarrow> wave_n w = 1 \<and> wave_l w = 0 \<and> wave_m w = 0"
  shows "\<exists>shd. createVolumeShader sc cc ab cu ws = Inr shd"
proof -
  have "\<exists>ss. hydrogen_strings ws = Inr ss"
    by (rule hydrogen_strings_ok) (use assms(2) hydrogenWaveFuncStr_ground in auto)
  then show ?thesis
    using assms(1) by (auto simp: createVolumeShader_def Let_def)
qed

lemma hydrogen_strings_length:
  "hydrogen_strings ws = Inr ss \<Longrightarrow> length ss = length ws"
  by (induction ws arbitrary: ss) (auto split: sum.splits)

lemma hydrogen_strings_nth:
  assumes "hydrogen_strings ws = Inr ss" "i < length ws"
  shows "hydrogenWaveFuncStr (trunc_int (wave_n (ws ! i))) (trunc_int (wave_l (ws ! i)))
           (trunc_int (wave_m (ws ! i))) (wave_phase (ws ! i)) [] [] = Inr (ss ! i)"
  using assms
proof (induction ws arbitrary: ss i)
  case Nil
  then show ?case by simp
next
  case (Cons w ws)
  then show ?case
    by (cases i) (auto split: sum.splits)
qed

lemma hydrogen_strings_ignores_weight:
  "hydrogen_strings (map (\<lambda>w. w\<lparr>wave_amplitude := f w\<rparr>) ws) = hydrogen_strings ws"
  by (induction ws) (auto split: sum.splits)

lemma wave_chunk_explicit:
  "wave_chunk i (waves ! i) (strs ! i) =
     [Txt ''cart_p= v_pos + n*dist + vec3(0.0, 0.0, '', FmtE (wave_translation (waves ! i)), Txt '');'',
                 Txt ''r= sqrt(dot(cart_p, cart_p));'',
                 Txt ''phi= atan2(cart_p.y, cart_p.x);'',
                 Txt ''cos_theta= cart_p.z/r;'',
                 Txt ''theta= acos(cos_theta);'',
                 Txt ''sin_theta= sin(theta);'',
                 Txt ''float a_'', FmtI (int i), Txt ''= (''] @ fst (strs ! i) @
                [Txt '');'', Txt ''float p_'', FmtI (int i), Txt ''= (''] @ snd (strs ! i) @
                [Txt '');'',
                 Txt ''total_real += a_'', FmtI (int i), Txt ''*cos(p_'', FmtI (int i), Txt '')*'',
                 FmtE (wave_amplitude (waves ! i)), Txt '';'',
                 Txt ''total_imag += a_'', FmtI (int i), Txt ''*sin(p_'', FmtI (int i), Txt '');'']"
  by (simp add: wave_chunk_def wave_accumulate_def)

lemma macro_contains_whole_chunk:
  assumes "src = hd0 @ calc_total_wavefunc_define waves strs @ tl0"
    and "i < length waves" and "0.001 < wave_amplitude (waves ! i)"
  shows "\<exists>pre post. src = pre @ wave_chunk i (waves ! i) (strs ! i) @ post"
proof -
  let ?f = "\<lambda>i. if wave_amplitude (waves ! i) \<le> 0.001 then []
                 else wave_chunk i (waves ! i) (strs ! i)"
  have "concat (map ?f [0..<length waves]) =
          concat (map ?f [0..<i]) @ ?f i @ concat (map ?f [Suc i..<length waves])"
    by (rule concat_map_upt_split[OF assms(2)])
  then have "src =
      (hd0 @ [Txt ''#define CALC_TOTAL_WAVEFUNC ''] @ concat (map ?f [0..<i])) @
      wave_chunk i (waves ! i) (strs ! i) @
      (concat (map ?f [Suc i..<length waves]) @ tl0)"
    using assms(1,3) by (simp add: calc_total_wavefunc_define_def)
  then show ?thesis by blast
qed

text \<open>
  Claim C5: the macro \<^verbatim>\<open>CALC_TOTAL_WAVEFUNC\<close> that
  \<^verbatim>\<open>createVolumeShader\<close> generates (it ends the first fragment source)
  consists of one chunk for every wave whose amplitude weight is above \<open>0.001\<close>,
  in order. The chunk of wave \<open>i\<close> declares \<^verbatim>\<open>a_i\<close> and \<^verbatim>\<open>p_i\<close> as the two
  texts that \<^verbatim>\<open>hydrogenWaveFuncStr\<close> returns for the wave's \<open>n\<close>, \<open>l\<close>, \<open>m\<close>
  and phase, and ends with the two statements
  \<^verbatim>\<open>total_real += a_i*cos(p_i)*<weight>;\<close> and \<^verbatim>\<open>total_imag += a_i*sin(p_i);\<close>.
  The two texts do not depend on the weights: they are the same whatever weights
  the waves carry. So for every emitted wave the weight multiplies the real
  contribution, and it occurs neither in the imaginary contribution nor in the
  \<^verbatim>\<open>a_i\<close> and \<^verbatim>\<open>p_i\<close> that contribution is made of.
\<close>

theorem macro_weights_real_part_only:
  assumes "createVolumeShader sample_count complex_color absorption cutoff waves = Inr shd"
  shows "\<exists>strs.
     hydrogen_strings waves = Inr strs \<and> length strs = length waves \<and>
     (\<forall>f. hydrogen_strings (map (\<lambda>w. w\<lparr>wave_amplitude := f w\<rparr>) waves) = Inr strs) \<and>
     (\<forall>i. i < length waves \<longrightarrow>
          hydrogenWaveFuncStr (trunc_int (wave_n (waves ! i))) (trunc_int (wave_l (waves ! i)))
            (trunc_int (wave_m (waves ! i))) (wave_phase (waves ! i)) [] [] = Inr (strs ! i)) \<and>
     shd_fs_src shd ! 0 =
         [Txt ''#version 120\<newline>'',
          Txt ''#define SAMPLE_COUNT '', FmtI sample_count, Txt ''\<newline>'',
          Txt ''#define COMPLEX_COLOR '', FmtI (if complex_color then 1 else 0), Txt ''\<newline>'',
          Txt ''#define ABSORPTION_MUL '', FmtE absorption, Txt ''\<newline>'',
          Txt ''#define CUTOFF '', FmtE cutoff, Txt ''\<newline>'',
          Txt ''#define CALC_TOTAL_WAVEFUNC ''] @
         concat (map (\<lambda>i.
                [Txt ''cart_p= v_pos + n*dist + vec3(0.0, 0.0, '', FmtE (wave_translation (waves ! i)), Txt '');'',
                 Txt ''r= sqrt(dot(cart_p, cart_p));'',
                 Txt ''phi= atan2(cart_p.y, cart_p.x);'',
                 Txt ''cos_theta= cart_p.z/r;'',
                 Txt ''theta= acos(cos_theta);'',
                 Txt ''sin_theta= sin(theta);'',
                 Txt ''float a_'', FmtI (int i), Txt ''= (''] @ fst (strs ! i) @
                [Txt '');'', Txt ''float p_'', FmtI (int i), Txt ''= (''] @ snd (strs ! i) @
                [Txt '');'',
                 Txt ''total_real += a_'', FmtI (int i), Txt ''*cos(p_'', FmtI (int i), Txt '')*'',
                 FmtE (wave_amplitude (waves ! i)), Txt '';'',
                 Txt ''total_imag += a_'', FmtI (int i), Txt ''*sin(p_'', FmtI (int i), Txt '');''])
              (filter (\<lambda>i. 0.001 < wave_amplitude (waves ! i)) [0..<length waves])) @
         [Txt ''\<newline>''] \<and>
     (\<forall>i. i < length waves \<and> 0.001 < wave_amplitude (waves ! i) \<longrightarrow>
        (\<exists>pre post. shd_fs_src shd ! 0 =
              pre @
              [Txt ''float a_'', FmtI (int i), Txt ''= (''] @ fst (strs ! i) @
              [Txt '');'', Txt ''float p_'', FmtI (int i), Txt ''= (''] @ snd (strs ! i) @
              [Txt '');'',
               Txt ''total_real += a_'', FmtI (int i), Txt ''*cos(p_'', FmtI (int i), Txt '')*'',
               FmtE (wave_amplitude (waves ! i)), Txt '';'',
               Txt ''total_imag += a_'', FmtI (int i), Txt ''*sin(p_'', FmtI (int i), Txt '');''] @
              post))"
proof -
  obtain strs where strs: "hydrogen_strings waves = Inr strs"
    and s: "shd_fs_src shd =
             [[Txt ''#version 120\<newline>'',
               Txt ''#define SAMPLE_COUNT '', FmtI sample_count, Txt ''\<newline>'',
               Txt ''#define COMPLEX_COLOR '', FmtI (if complex_color then 1 else 0), Txt ''\<newline>'',
               Txt ''#define ABSORPTION_MUL '', FmtE absorption, Txt ''\<newline>'',
               Txt ''#define CUTOFF '', FmtE cutoff, Txt ''\<newline>''] @
              calc_total_wavefunc_define waves strs @ [Txt ''\<newline>''],
              [Txt fs_template_src]]"
    using createVolumeShader_Inr[OF assms] by blast
  have len: "length strs = length waves"
    using strs by (rule hydrogen_strings_length)
  have inv: "hydrogen_strings (map (\<lambda>w. w\<lparr>wave_amplitude := f w\<rparr>) waves) = Inr strs" for f
    using strs by (simp add: hydrogen_strings_ignores_weight)
  have nth: "hydrogenWaveFuncStr (trunc_int (wave_n (waves ! i))) (trunc_int (wave_l (waves ! i)))
            (trunc_int (wave_m (waves ! i))) (wave_phase (waves ! i)) [] [] = Inr (strs ! i)"
    if "i < length waves" for i
    using strs that by (rule hydrogen_strings_nth)
  have s0: "shd_fs_src shd ! 0 =
      [Txt ''#version 120\<newline>'',
               Txt ''#define SAMPLE_COUNT '', FmtI sample_count, Txt ''\<newline>'',
               Txt ''#define COMPLEX_COLOR '', FmtI (if complex_color then 1 else 0), Txt ''\<newline>'',
               Txt ''#define ABSORPTION_MUL '', FmtE absorption, Txt ''\<newline>'',
               Txt ''#define CUTOFF '', FmtE cutoff, Txt ''\<newline>''] @
              calc_total_wavefunc_define waves strs @ [Txt ''\<newline>'']"
    by (simp add: s)
  have whole: "shd_fs_src shd ! 0 =
         [Txt ''#version 120\<newline>'',
          Txt ''#define SAMPLE_COUNT '', FmtI sample_count, Txt ''\<newline>'',
          Txt ''#define COMPLEX_COLOR '', FmtI (if complex_color then 1 else 0), Txt ''\<newline>'',
          Txt ''#define ABSORPTION_MUL '', FmtE absorption, Txt ''\<newline>'',
          Txt ''#define CUTOFF '', FmtE cutoff, Txt ''\<newline>'',
          Txt ''#define CALC_TOTAL_WAVEFUNC ''] @
         concat (map (\<lambda>i.
                [Txt ''cart_p= v_pos + n*dist + vec3(0.0, 0.0, '', FmtE (wave_translation (waves ! i)), Txt '');'',
                 Txt ''r= sqrt(dot(cart_p, cart_p));'',
                 Txt ''phi= atan2(cart_p.y, cart_p.x);'',
                 Txt ''cos_theta= cart_p.z/r;'',
                 Txt ''theta= acos(cos_theta);'',
                 Txt ''sin_theta= sin(theta);'',
                 Txt ''float a_'', FmtI (int i), Txt ''= (''] @ fst (strs ! i) @
                [Txt '');'', Txt ''float p_'', FmtI (int i), Txt ''= (''] @ snd (strs ! i) @
                [Txt '');'',
                 Txt ''total_real += a_'', FmtI (int i), Txt ''*cos(p_'', FmtI (int i), Txt '')*'',
                 FmtE (wave_amplitude (waves ! i)), Txt '';'',
                 Txt ''total_imag += a_'', FmtI (int i), Txt ''*sin(p_'', FmtI (int i), Txt '');''])
              (filter (\<lambda>i. 0.001 < wave_amplitude (waves ! i)) [0..<length waves])) @
         [Txt ''\<newline>'']"
    unfolding s0 macro_as_filter wave_chunk_explicit by simp
  have part: "\<exists>pre post. shd_fs_src shd ! 0 =
              pre @
              [Txt ''float a_'', FmtI (int i), Txt ''= (''] @ fst (strs ! i) @
              [Txt '');'', Txt ''float p_'', FmtI (int i), Txt ''= (''] @ snd (strs ! i) @
              [Txt '');'',
               Txt ''total_real += a_'', FmtI (int i), Txt ''*cos(p_'', FmtI (int i), Txt '')*'',
               FmtE (wave_amplitude (waves ! i)), Txt '';'',
               Txt ''total_imag += a_'', FmtI (int i), Txt ''*sin(p_'', FmtI (int i), Txt '');''] @
              post"
    if i: "i < length waves" "0.001 < wave_amplitude (waves ! i)" for i
  proof -
    obtain pre post where
      "shd_fs_src shd ! 0 = pre @ wave_chunk i (waves ! i) (strs ! i) @ post"
      using macro_contains_whole_chunk[OF s0 i] by blast
    then have "shd_fs_src shd ! 0 =
        (pre @ [Txt ''cart_p= v_pos + n*dist + vec3(0.0, 0.0, '', FmtE (wave_translation (waves ! i)), Txt '');'',
                 Txt ''r= sqrt(dot(cart_p, cart_p));'',
                 Txt ''phi= atan2(cart_p.y, cart_p.x);'',
                 Txt ''cos_theta= cart_p.z/r;'',
                 Txt ''theta= acos(cos_theta);'',
                 Txt ''sin_theta= sin(theta);'']) @
              [Txt ''float a_'', FmtI (int i), Txt ''= (''] @ fst (strs ! i) @
              [Txt '');'', Txt ''float p_'', FmtI (int i), Txt ''= (''] @ snd (strs ! i) @
              [Txt '');'',
               Txt ''total_real += a_'', FmtI (int i), Txt ''*cos(p_'', FmtI (int i), Txt '')*'',
               FmtE (wave_amplitude (waves ! i)), Txt '';'',
               Txt ''total_imag += a_'', FmtI (int i), Txt ''*sin(p_'', FmtI (int i), Txt '');''] @
              post"
      by (simp add: wave_chunk_explicit)
    then show ?thesis by blast
  qed
  show ?thesis
    using strs len inv nth whole part by blast
qed

theorem macro_weights_real_part_only_witness:
  "\<exists>shd strs pre post.
     createVolumeShader 40 False 0 0
       [\<lparr> wave_amplitude = 1, wave_phase = 0, wave_n = 1, wave_l = 0, wave_m = 0,
           wave_translation = 0, wave_particle = 0 \<rparr>] = Inr shd \<and>
     (0 :: nat) < length
       [\<lparr> wave_amplitude = 1, wave_phase = 0, wave_n = 1, wave_l = 0, wave_m = 0,
           wave_translation = 0, wave_particle = 0 \<rparr>] \<and>
     0.001 < wave_amplitude
       ([\<lparr> wave_amplitude = 1, wave_phase = 0, wave_n = 1, wave_l = 0, wave_m = 0,
           wave_translation = 0, wave_particle = 0 \<rparr>] ! 0) \<and>
     hydrogenWaveFuncStr (trunc_int 1) (trunc_int 0) (trunc_int 0) 0 [] [] = Inr strs \<and>
     shd_fs_src shd ! 0 =
       pre @
       [Txt ''float a_'', FmtI 0, Txt ''= (''] @ fst strs @
       [Txt '');'', Txt ''float p_'', FmtI 0, Txt ''= (''] @ snd strs @
       [Txt '');'',
        Txt ''total_real += a_'', FmtI 0, Txt ''*cos(p_'', FmtI 0, Txt '')*'', FmtE 1, Txt '';'',
        Txt ''total_imag += a_'', FmtI 0, Txt ''*sin(p_'', FmtI 0, Txt '');''] @
       post"
proof -
  let ?ws = "[\<lparr> wave_amplitude = 1, wave_phase = 0, wave_n = 1, wave_l = 0, wave_m = 0,
           wave_translation = 0, wave_particle = 0 \<rparr>]"
  have "\<exists>shd. createVolumeShader 40 False 0 0 ?ws = Inr shd"
    by (rule createVolumeShader_ground) auto
  then obtain shd where shd: "createVolumeShader 40 False 0 0 ?ws = Inr shd" by blast
  obtain ss where ss:
    "\<forall>i. i < length ?ws \<longrightarrow>
       hydrogenWaveFuncStr (trunc_int (wave_n (?ws ! i))) (trunc_int (wave_l (?ws ! i)))
            (trunc_int (wave_m (?ws ! i))) (wave_phase (?ws ! i)) [] [] = Inr (ss ! i)"
    "\<forall>i. i < length ?ws \<and> 0.001 < wave_amplitude (?ws ! i) \<longrightarrow>
        (\<exists>pre post. shd_fs_src shd ! 0 =
              pre @
              [Txt ''float a_'', FmtI (int i), Txt ''= (''] @ fst (ss ! i) @
              [Txt '');'', Txt ''float p_'', FmtI (int i), Txt ''= (''] @ snd (ss ! i) @
              [Txt '');'',
               Txt ''total_real += a_'', FmtI (int i), Txt ''*cos(p_'', FmtI (int i), Txt '')*'',
               FmtE (wave_amplitude (?ws ! i)), Txt '';'',
               Txt ''total_imag += a_'', FmtI (int i), Txt ''*sin(p_'', FmtI (int i), Txt '');''] @
              post)"
    using macro_weights_real_part_only[OF shd] by blast
  have a: "hydrogenWaveFuncStr (trunc_int 1) (trunc_int 0) (trunc_int 0) 0 [] [] = Inr (ss ! 0)"
    using ss(1)[THEN spec, of 0] by simp
  have "\<exists>pre post. shd_fs_src shd ! 0 =
       pre @
       [Txt ''float a_'', FmtI 0, Txt ''= (''] @ fst (ss ! 0) @
       [Txt '');'', Txt ''float p_'', FmtI 0, Txt ''= (''] @ snd (ss ! 0) @
       [Txt '');'',
        Txt ''total_real += a_'', FmtI 0, Txt ''*cos(p_'', FmtI 0, Txt '')*'', FmtE 1, Txt '';'',
        Txt ''total_imag += a_'', FmtI 0, Txt ''*sin(p_'', FmtI 0, Txt '');''] @
       post"
    using ss(2)[THEN spec, of 0] by simp
  then show ?thesis using shd a by auto
qed

subsection \<open>A wave that was just added\<close>





lemma addWave_Inr:
  assumes "addWave prog = Inr prog'"
  shows "p_waves prog' = p_waves prog @
           [\<lparr> wave_amplitude = (if p_waves prog = [] then 1 else 0), wave_phase = 0, wave_n = 1,
              wave_l = 0, wave_m = 0, wave_translation = 0, wave_particle = 0 \<rparr>]"
  using assms
  by (auto simp: addWave_def push_def Let_def split: if_splits sum.splits)



lemma addWave_second:
  assumes "length (p_waves p1) = 1" "length (p_sliders p1) \<le> 26"
  shows "\<exists>p2. addWave p1 = Inr p2"
  using assms
  by (simp add: addWave_def push_def Program_maxWaves_def Program_maxSliders_def Let_def)

lemma addWave_sliders:
  assumes "addWave prog = Inr prog'"
  shows "take (length (p_sliders prog)) (p_sliders prog') = p_sliders prog \<and>
         length (p_sliders prog') = length (p_sliders prog) + 6"
  using assms
  by (auto simp: addWave_def push_def Let_def split: if_splits sum.splits)

lemma addWave_settings:
  assumes "addWave prog = Inr prog'"
  shows "p_phase prog' = p_phase prog \<and> p_time prog' = p_time prog \<and>
         p_sampleCount prog' = p_sampleCount prog"
  using assms
  by (auto simp: addWave_def push_def Let_def split: if_splits sum.splits)


subsection \<open>The sampling loop\<close>

text \<open>
  Claim C7: the probability of a sample is the square of the total amplitude,
  which is \<open>total_real\<^sup>2 + total_imag\<^sup>2\<close> (the squared modulus of the complex
  sum), and it is replaced by \<open>0\<close> exactly when it is strictly below
  \<^verbatim>\<open>CUTOFF\<close>. The statements stand in the template as embedded above, and
  \<^verbatim>\<open>CUTOFF\<close> is defined as the \<open>cutoff\<close> argument in the generated
  fragment source.
\<close>

theorem sample_probability_hard_threshold:
  "sample_P CUTOFF total_real total_imag =
     (if (total_real\<^sup>2 + total_imag\<^sup>2)\<^sup>2 < CUTOFF then 0 else (total_real\<^sup>2 + total_imag\<^sup>2)\<^sup>2) \<and>
   total_real\<^sup>2 + total_imag\<^sup>2 = (cmod (Complex total_real total_imag))\<^sup>2 \<and>
   (\<exists>pre post. fs_template_src = pre @
      ''		float total_amplitude= total_real*total_real + total_imag*total_imag;'' @
      ''		float total_complex_phase= atan2(total_imag, total_real);'' @
      ''		float P= total_amplitude*total_amplitude;'' @
      ''		if (P < CUTOFF) P= 0;'' @ post) \<and>
   (\<forall>shd. createVolumeShader sample_count complex_color absorption cutoff waves = Inr shd \<longrightarrow>
      (\<exists>pre post. shd_fs_src shd =
         [pre @ [Txt ''#define CUTOFF '', FmtE cutoff, Txt ''\<newline>''] @ post,
          [Txt fs_template_src]]))"
proof -
  have "fs_template_src = concat (take 32 fs_template_lines) @
      ''		float total_amplitude= total_real*total_real + total_imag*total_imag;'' @
      ''		float total_complex_phase= atan2(total_imag, total_real);'' @
      ''		float P= total_amplitude*total_amplitude;'' @
      ''		if (P < CUTOFF) P= 0;'' @ concat (drop 36 fs_template_lines)"
    by (simp add: fs_template_src_def fs_template_lines_def)
  then have "\<exists>pre post. fs_template_src = pre @
      ''		float total_amplitude= total_real*total_real + total_imag*total_imag;'' @
      ''		float total_complex_phase= atan2(total_imag, total_real);'' @
      ''		float P= total_amplitude*total_amplitude;'' @
      ''		if (P < CUTOFF) P= 0;'' @ post" by blast
  moreover have "total_real\<^sup>2 + total_imag\<^sup>2 = (cmod (Complex total_real total_imag))\<^sup>2"
    by (simp add: cmod_power2)
  moreover have "sample_P CUTOFF total_real total_imag =
     (if (total_real\<^sup>2 + total_imag\<^sup>2)\<^sup>2 < CUTOFF then 0 else (total_real\<^sup>2 + total_imag\<^sup>2)\<^sup>2)"
    by (simp add: sample_P_def Let_def power2_eq_square)
  moreover have "\<exists>pre post. shd_fs_src shd =
         [pre @ [Txt ''#define CUTOFF '', FmtE cutoff, Txt ''\<newline>''] @ post,
          [Txt fs_template_src]]"
    if c: "createVolumeShader sample_count complex_color absorption cutoff waves = Inr shd" for shd
  proof -
    obtain strs where "shd_fs_src shd =
             [[Txt ''#version 120\<newline>'',
               Txt ''#define SAMPLE_COUNT '', FmtI sample_count, Txt ''\<newline>'',
               Txt ''#define COMPLEX_COLOR '', FmtI (if complex_color then 1 else 0), Txt ''\<newline>'',
               Txt ''#define ABSORPTION_MUL '', FmtE absorption, Txt ''\<newline>'',
               Txt ''#define CUTOFF '', FmtE cutoff, Txt ''\<newline>''] @
              calc_total_wavefunc_define waves strs @ [Txt ''\<newline>''],
              [Txt fs_template_src]]"
      using createVolumeShader_Inr[OF c] by blast
    then have "shd_fs_src shd =
       [[Txt ''#version 120\<newline>'',
               Txt ''#define SAMPLE_COUNT '', FmtI sample_count, Txt ''\<newline>'',
               Txt ''#define COMPLEX_COLOR '', FmtI (if complex_color then 1 else 0), Txt ''\<newline>'',
               Txt ''#define ABSORPTION_MUL '', FmtE absorption, Txt ''\<newline>''] @
        [Txt ''#define CUTOFF '', FmtE cutoff, Txt ''\<newline>''] @
        (calc_total_wavefunc_define waves strs @ [Txt ''\<newline>'']),
        [Txt fs_template_src]]"
      by simp
    then show ?thesis by blast
  qed
  ultimately show ?thesis by blast
qed

theorem sample_probability_hard_threshold_witness:
  "sample_P (1 / 10) (1 / 2) (1 / 2) = 1 / 4 \<and>
   sample_P (1 / 10) (1 / 2) 0 = 0 \<and>
   (\<exists>shd pre post.
      createVolumeShader 40 False 0 (1 / 10)
        [\<lparr> wave_amplitude = 1, wave_phase = 0, wave_n = 1, wave_l = 0, wave_m = 0,
            wave_translation = 0, wave_particle = 0 \<rparr>] = Inr shd \<and>
      shd_fs_src shd =
        [pre @ [Txt ''#define CUTOFF '', FmtE (1 / 10), Txt ''\<newline>''] @ post,
         [Txt fs_template_src]])"
proof -
  let ?ws = "[\<lparr> wave_amplitude = 1, wave_phase = 0, wave_n = 1, wave_l = 0, wave_m = 0,
            wave_translation = 0, wave_particle = 0 \<rparr>]"
  have "\<exists>shd. createVolumeShader 40 False 0 (1 / 10) ?ws = Inr shd"
    by (rule createVolumeShader_ground) auto
  then obtain shd where shd: "createVolumeShader 40 False 0 (1 / 10) ?ws = Inr shd"
    by blast
  have a: "sample_P (1 / 10) (1 / 2) (1 / 2) = 1 / 4"
    using sample_probability_hard_threshold[of "1 / 10" "1 / 2" "1 / 2" 40 False 0 "1 / 10" ?ws]
    by (simp add: power2_eq_square)
  have b: "sample_P (1 / 10) (1 / 2) 0 = 0"
    using sample_probability_hard_threshold[of "1 / 10" "1 / 2" 0 40 False 0 "1 / 10" ?ws]
    by (simp add: power2_eq_square)
  have "\<exists>pre post. shd_fs_src shd =
        [pre @ [Txt ''#define CUTOFF '', FmtE (1 / 10), Txt ''\<newline>''] @ post,
         [Txt fs_template_src]]"
    using sample_probability_hard_threshold[of "1 / 10" "1 / 2" 0 40 False 0 "1 / 10" ?ws] shd
    by blast
  then show ?thesis using a b shd by blast
qed

subsection \<open>The frame\<close>

lemma pointInside_unique:
  assumes "pointInside i p" "pointInside j p"
  shows "i = j"
proof -
  have h: "1 - (real i + 1) * (5 / 100) < snd p" "snd p < 1 - real i * (5 / 100)"
    "1 - (real j + 1) * (5 / 100) < snd p" "snd p < 1 - real j * (5 / 100)"
    using assms
    by (auto simp: pointInside_def slider_top_def slider_bottom_def sliderHeight_def add.commute)
  have "real j < real i + 1"
    using h(1,4) by argo
  moreover have "real i < real j + 1"
    using h(2,3) by argo
  ultimately show ?thesis by linarith
qed

lemma slider_loop_append:
  "slider_loop env (xs @ ys) st =
     (case slider_loop env xs st of Inl e \<Rightarrow> Inl e | Inr st' \<Rightarrow> slider_loop env ys st')"
  by (induction xs arbitrary: st) (auto split: sum.splits)

lemma slider_step_outside:
  "\<not> pointInside i (e_anchorPos env) \<Longrightarrow> slider_step env i st = Inr st"
  by (cases st) (simp add: slider_step_def Let_def)

lemma slider_step_idle:
  "\<not> e_lmbDown env \<Longrightarrow> slider_step env i st = Inr st"
  by (cases st) (simp add: slider_step_def Let_def)

lemma slider_loop_outside:
  "(\<And>i. i \<in> set xs \<Longrightarrow> \<not> pointInside i (e_anchorPos env)) \<Longrightarrow> slider_loop env xs st = Inr st"
  by (induction xs arbitrary: st) (simp_all add: slider_step_outside)

lemma slider_loop_idle:
  "\<not> e_lmbDown env \<Longrightarrow> slider_loop env xs st = Inr st"
  by (induction xs arbitrary: st) (simp_all add: slider_step_idle)

lemma slider_loop_hit:
  assumes "k < n" "pointInside k (e_anchorPos env)"
  shows "slider_loop env [0..<n] st = slider_step env k st"
proof -
  have s: "[0..<n] = [0..<k] @ [k] @ [Suc k..<n]"
    using assms(1) upt_add_eq_append[of 0 k "n - k"] by (simp add: upt_conv_Cons)
  have a: "slider_loop env [0..<k] st = Inr st"
    by (rule slider_loop_outside) (auto dest: pointInside_unique[OF assms(2)])
  have b: "slider_loop env [Suc k..<n] st' = Inr st'" for st'
    by (rule slider_loop_outside) (auto dest: pointInside_unique[OF assms(2)])
  show ?thesis
    unfolding s slider_loop_append by (simp add: a b split: sum.splits)
qed

lemma frame_eq: "frame env prog = slider_loop env [0..<length (p_sliders prog)] (after_clocks env prog, [])"
  by (simp add: frame_def after_clocks_def Let_def)

lemma p_sliders_after_clocks [simp]: "p_sliders (after_clocks env prog) = p_sliders prog"
  by (simp add: after_clocks_def)

lemma p_shader_assign [simp]: "p_shader (assign p f v) = p_shader p"
  by (cases f) simp_all

lemma p_sliders_assign [simp]: "p_sliders (assign p f v) = p_sliders p"
  by (cases f) simp_all

lemma p_time_assign [simp]: "p_time (assign p f v) = p_time p"
  by (cases f) simp_all

text \<open>
  Claim C6: a call of \<^verbatim>\<open>frame\<close> that returns destroys and recreates the
  volume shader exactly when some slider receives a pointer edit that changes the
  value of a slider whose recompile flag is set (\<open>recompile_edit\<close>); it then does
  so once, and the new shader is what \<^verbatim>\<open>createVolumeShader\<close> makes of the
  edited settings. Otherwise (no edit, an edit of a slider without the flag, an
  edit that leaves the value as it was) the frame makes no call on the shader and
  keeps it.
\<close>

theorem frame_recompiles_on_flagged_change:
  assumes "frame env prog = Inr (prog', events)"
  shows "events = (if \<exists>i < length (p_sliders prog). recompile_edit env prog i
                   then [DestroyGlShaderProgram, CreateVolumeShader] else []) \<and>
         (if \<exists>i < length (p_sliders prog). recompile_edit env prog i
          then createVolumeShader (trunc_int (p_sampleCount prog')) (p_complexColor prog' \<noteq> 0)
                 (p_absorption prog') (p_cutoff prog') (p_waves prog') = Inr (p_shader prog')
          else p_shader prog' = p_shader prog)"
proof (cases "\<exists>k < length (p_sliders prog). pointInside k (e_anchorPos env)")
  case False
  then have "\<not> (\<exists>i < length (p_sliders prog). recompile_edit env prog i)"
    by (auto simp: recompile_edit_def)
  moreover have "slider_loop env [0..<length (p_sliders prog)] (after_clocks env prog, []) =
      Inr (after_clocks env prog, [])"
    by (rule slider_loop_outside) (use False in auto)
  then have "frame env prog = Inr (after_clocks env prog, [])"
    by (simp add: frame_eq)
  ultimately show ?thesis using assms by (auto simp: after_clocks_def)
next
  case True
  then obtain k where k: "k < length (p_sliders prog)" "pointInside k (e_anchorPos env)" by blast
  have u: "(\<exists>i < length (p_sliders prog). recompile_edit env prog i) = recompile_edit env prog k"
    using k by (auto simp: recompile_edit_def dest: pointInside_unique[OF k(2)])
  have f: "slider_step env k (after_clocks env prog, []) = Inr (prog', events)"
    using assms slider_loop_hit[OF k] by (simp add: frame_eq)
  show ?thesis
  proof (cases "recompile_edit env prog k")
    case True
    then show ?thesis using f u k
      by (auto simp: slider_step_def Let_def recompile_edit_def split: sum.splits if_splits)
  next
    case False
    then show ?thesis using f u k
      by (auto simp: slider_step_def Let_def recompile_edit_def after_clocks_def split: sum.splits if_splits)
  qed
qed

lemma init_zero:
  "\<exists>p0. init Program_zero = Inr p0 \<and>
     take 11 (p_sliders p0) = default_sliders \<and> length (p_sliders p0) = 23 \<and>
     p_phase p0 = 0 \<and> p_time p0 = 0 \<and> p_sampleCount p0 = 40 \<and>
     p_waves p0 =
       [\<lparr> wave_amplitude = 1, wave_phase = 0, wave_n = 1, wave_l = 0, wave_m = 0,
              wave_translation = 0, wave_particle = 0 \<rparr>,
        \<lparr> wave_amplitude = 0, wave_phase = 0, wave_n = 1, wave_l = 0, wave_m = 0,
              wave_translation = 0, wave_particle = 0 \<rparr>]"
proof -
  let ?p = "Program_zero\<lparr> p_time := 0.0, p_phase := 0.0, p_sampleCount := 40, p_resoMul := 0.5,
                       p_filtering := 0.0, p_r := 1.0, p_g := 0.6, p_b := 0.4,
                       p_complexColor := 0.0, p_absorption := 0.0, p_cutoff := 0.0,
                       p_distance := 2.0, p_sliders := default_sliders \<rparr>"
  have ps: "push_all Program_maxSliders [] default_sliders = Inr default_sliders"
    by (simp add: default_sliders_def push_def Program_maxSliders_def)
  obtain p1 where p1: "addWave ?p = Inr p1"
    by (simp add: addWave_def Program_zero_def push_def Program_maxWaves_def
          Program_maxSliders_def Let_def default_sliders_def)
  have w1: "p_waves p1 = [\<lparr> wave_amplitude = 1, wave_phase = 0, wave_n = 1, wave_l = 0, wave_m = 0,
              wave_translation = 0, wave_particle = 0 \<rparr>]"
    using addWave_Inr[OF p1] by (simp add: Program_zero_def)
  have ld: "length default_sliders = 11"
    by (simp add: default_sliders_def)
  have s1: "take 11 (p_sliders p1) = default_sliders \<and> length (p_sliders p1) = 17"
    using addWave_sliders[OF p1] ld by simp
  obtain p2 where p2: "addWave p1 = Inr p2"
    using addWave_second[of p1] w1 s1 by auto
  have w2: "p_waves p2 = [\<lparr> wave_amplitude = 1, wave_phase = 0, wave_n = 1, wave_l = 0, wave_m = 0,
              wave_translation = 0, wave_particle = 0 \<rparr>,
        \<lparr> wave_amplitude = 0, wave_phase = 0, wave_n = 1, wave_l = 0, wave_m = 0,
              wave_translation = 0, wave_particle = 0 \<rparr>]"
    using addWave_Inr[OF p2] w1 by simp
  have s2: "take 11 (p_sliders p2) = default_sliders \<and> length (p_sliders p2) = 23"
  proof -
    have "take 17 (p_sliders p2) = p_sliders p1" "length (p_sliders p2) = 23"
      using addWave_sliders[OF p2] s1 by auto
    then have "take 11 (take 17 (p_sliders p2)) = default_sliders"
      using s1 by simp
    then show ?thesis using \<open>length (p_sliders p2) = 23\<close> by simp
  qed
  have c: "p_phase p2 = 0 \<and> p_time p2 = 0 \<and> p_sampleCount p2 = 40"
    using addWave_settings[OF p1] addWave_settings[OF p2] by simp
  have "\<exists>shd. createVolumeShader (trunc_int (p_sampleCount p2)) (p_complexColor p2 \<noteq> 0)
                (p_absorption p2) (p_cutoff p2) (p_waves p2) = Inr shd"
    by (rule createVolumeShader_ground) (use w2 in auto)
  then obtain shd where shd: "createVolumeShader (trunc_int (p_sampleCount p2)) (p_complexColor p2 \<noteq> 0)
                (p_absorption p2) (p_cutoff p2) (p_waves p2) = Inr shd"
    by blast
  have "init Program_zero = Inr (p2\<lparr>p_shader := shd\<rparr>)"
    using ps p1 p2 shd by (simp add: init_def Program_zero_def)
  then show ?thesis using w2 s2 c by simp
qed

lemma init_zero_sliders:
  assumes "init Program_zero = Inr p0" "i < 11"
  shows "p_sliders p0 ! i = default_sliders ! i"
proof -
  obtain q where q: "init Program_zero = Inr q" "take 11 (p_sliders q) = default_sliders"
    using init_zero by blast
  have "q = p0" using q(1) assms(1) by simp
  moreover have "p_sliders q ! i = take 11 (p_sliders q) ! i"
    using assms(2) by simp
  ultimately show ?thesis using q(2) by metis
qed

theorem frame_recompiles_on_flagged_change_witness:
  "\<exists>p0 p'. init Program_zero = Inr p0 \<and>
     frame \<lparr> e_dt = 0, e_anchorPos = (- 0.9, 0.925), e_cursorPos = (- 0.9, 0.925),
             e_lmbDown = True \<rparr> p0 = Inr (p', [DestroyGlShaderProgram, CreateVolumeShader]) \<and>
     recompile_edit \<lparr> e_dt = 0, e_anchorPos = (- 0.9, 0.925), e_cursorPos = (- 0.9, 0.925),
             e_lmbDown = True \<rparr> p0 1 \<and>
     p_sampleCount p0 = 40 \<and> p_sampleCount p' = 27"
proof -
  let ?env = "\<lparr> e_dt = 0, e_anchorPos = (- 0.9, 0.925), e_cursorPos = (- 0.9, 0.925),
             e_lmbDown = True \<rparr>"
  obtain p0 where p0: "init Program_zero = Inr p0" "length (p_sliders p0) = 23"
    "p_sampleCount p0 = 40"
    "p_waves p0 =
       [\<lparr> wave_amplitude = 1, wave_phase = 0, wave_n = 1, wave_l = 0, wave_m = 0,
              wave_translation = 0, wave_particle = 0 \<rparr>,
        \<lparr> wave_amplitude = 0, wave_phase = 0, wave_n = 1, wave_l = 0, wave_m = 0,
              wave_translation = 0, wave_particle = 0 \<rparr>]"
    using init_zero by blast
  have s1: "p_sliders p0 ! Suc 0 =
      \<lparr> s_title = ''Samples'', s_min = 5, s_max = 150, s_value = F_sampleCount,
        s_decimals = 0, s_recompile = True \<rparr>"
    using init_zero_sliders[OF p0(1), of 1] by (simp add: default_sliders_def)
  have inside: "pointInside 1 (e_anchorPos ?env)"
    by (simp add: pointInside_def slider_top_def slider_bottom_def sliderHeight_def sliderWidth_def)
  have v: "coordToValue (p_sliders p0 ! 1) (fst (e_cursorPos ?env)) = 27"
    by (simp add: s1 coordToValue_def CLAMP_def round_dec_def sliderWidth_def round_def)
  have re: "recompile_edit ?env p0 1"
    using inside v s1 p0(3) by (simp add: recompile_edit_def after_clocks_def)
  let ?q = "assign (after_clocks ?env p0) F_sampleCount 27"
  have "\<exists>shd. createVolumeShader (trunc_int (p_sampleCount ?q)) (p_complexColor ?q \<noteq> 0)
                (p_absorption ?q) (p_cutoff ?q) (p_waves ?q) = Inr shd"
    by (rule createVolumeShader_ground) (auto simp: after_clocks_def p0(4))
  then obtain shd where shd: "createVolumeShader (trunc_int (p_sampleCount ?q)) (p_complexColor ?q \<noteq> 0)
                (p_absorption ?q) (p_cutoff ?q) (p_waves ?q) = Inr shd"
    by blast
  have step: "slider_step ?env 1 (after_clocks ?env p0, []) =
      Inr (?q\<lparr>p_shader := shd\<rparr>, [DestroyGlShaderProgram, CreateVolumeShader])"
    using inside v shd s1 p0(3)
    by (simp add: slider_step_def Let_def after_clocks_def)
  have f: "frame ?env p0 = Inr (?q\<lparr>p_shader := shd\<rparr>, [DestroyGlShaderProgram, CreateVolumeShader])"
    using slider_loop_hit[of 1 "length (p_sliders p0)" ?env, OF _ inside] p0(2) step
    by (simp add: frame_eq)
  show ?thesis
    using frame_recompiles_on_flagged_change[OF f] p0(1,3) f re by auto
qed

lemma frame_idle:
  "\<not> e_lmbDown env \<Longrightarrow> frame env prog = Inr (after_clocks env prog, [])"
  by (simp add: frame_eq slider_loop_idle)

text \<open>
  Single-precision rounding: a value that is a multiple of its unit in the last
  place is kept, so the natural numbers up to \<open>2^24\<close> are; \<open>2^24 + 1\<close> lies
  halfway between two floats and goes to the even one, \<open>2^24\<close>; and below \<open>8\<close>
  the rounding moves a value by at most \<open>2^(-22)\<close>.
\<close>

lemma round_even_of_int: "round_even (of_int k) = k"
  by (simp add: round_even_def)

lemma round_even_ge: "q - 1 / 2 \<le> of_int (round_even q)"
proof -
  have "q - of_int \<lfloor>q\<rfloor> < 1" "0 \<le> q - of_int \<lfloor>q\<rfloor>" by linarith+
  then show ?thesis by (auto simp: round_even_def Let_def)
qed

lemma float_ulp_pos: "0 < float_ulp x"
  by (simp add: float_ulp_def)

lemma to_float_exact:
  assumes "x / float_ulp x = of_int k"
  shows "to_float x = x"
proof -
  have "of_int (round_even (x / float_ulp x)) * float_ulp x = x / float_ulp x * float_ulp x"
    by (simp add: assms round_even_of_int)
  also have "\<dots> = x" using float_ulp_pos[of x] by simp
  finally show ?thesis by (simp add: to_float_def)
qed

lemma floor_log2_bounds:
  assumes "2 powi a \<le> x" "x < 2 powi (a + 1)"
  shows "\<lfloor>log 2 x\<rfloor> = a"
proof -
  have "0 < (2::real) powi a" by simp
  then have x: "0 < x" using assms(1) by linarith
  have "real_of_int a \<le> log 2 x"
    using assms(1) x by (simp add: le_log_iff powr_real_of_int')
  moreover have "log 2 x < real_of_int (a + 1)"
  proof -
    have "(2::real) powr real_of_int (a + 1) = 2 powi (a + 1)"
      by (simp add: powr_real_of_int' del: of_int_add)
    then have "x < 2 powr real_of_int (a + 1)"
      using assms(2) by simp
    then show ?thesis using x by (subst log_less_iff) simp_all
  qed
  ultimately show ?thesis by linarith
qed

lemma to_float_nat:
  assumes "n \<le> 16777216"
  shows "to_float (real n) = real n"
proof (cases "n = 0")
  case True
  then show ?thesis by (simp add: to_float_def)
next
  case False
  define a where "a = \<lfloor>log 2 (real n)\<rfloor>"
  have n1: "1 \<le> real n" using False by simp
  have a0: "0 \<le> a" unfolding a_def using n1 by simp
  have "real n \<le> 2 powr 24"
    using assms by simp
  then have "log 2 (real n) \<le> 24"
    using n1 by (subst log_le_iff) simp_all
  then have a24: "a \<le> 24" unfolding a_def by (simp add: floor_le_iff)
  have u: "float_ulp (real n) = 2 powi (a - 23)"
    using a0 by (simp add: float_ulp_def a_def)
  show ?thesis
  proof (cases "a = 24")
    case True
    have "24 \<le> log 2 (real n)" using True unfolding a_def by linarith
    then have "2 powr 24 \<le> real n" using n1 by (simp add: le_log_iff)
    then have "real n = 16777216" using assms by simp
    then have "real n / float_ulp (real n) = of_int 8388608"
      using u True by simp
    then show ?thesis by (rule to_float_exact)
  next
    case False
    then have "0 \<le> 23 - a" using a24 by simp
    then obtain k where k: "23 - a = int k" using nonneg_int_cases by blast
    have ak: "a - 23 = - int k" using k by simp
    have "float_ulp (real n) = 1 / 2 ^ k"
      unfolding u ak by (simp add: power_int_minus field_simps)
    then have "real n / float_ulp (real n) = of_int (int n * 2 ^ k)"
      by simp
    then show ?thesis by (rule to_float_exact)
  qed
qed

lemma to_float_stall: "to_float (16777216 + 1) = 16777216"
proof -
  have "\<lfloor>log 2 (16777217::real)\<rfloor> = 24"
    by (rule floor_log2_bounds) simp_all
  then have u: "float_ulp 16777217 = 2"
    by (simp add: float_ulp_def)
  have "round_even (16777217 / 2) = 8388608"
  proof -
    have f: "\<lfloor>16777217 / (2::real)\<rfloor> = 8388608" by linarith
    show ?thesis by (simp add: round_even_def f Let_def)
  qed
  then show ?thesis by (simp add: to_float_def u)
qed

lemma to_float_ge:
  assumes "0 < y" "y < 8"
  shows "y - 1 / 2 ^ 22 \<le> to_float y"
proof -
  have "log 2 y < 3"
    using assms by (simp add: log_less_iff)
  then have "\<lfloor>log 2 \<bar>y\<bar>\<rfloor> \<le> 2" using assms(1) by (simp add: floor_le_iff)
  then have "max \<lfloor>log 2 \<bar>y\<bar>\<rfloor> (- 126) - 23 \<le> - 21" by simp
  then have "float_ulp y \<le> 2 powi (- 21)"
    unfolding float_ulp_def by (intro power_int_increasing) simp_all
  then have u: "float_ulp y \<le> 1 / 2 ^ 21"
    by (simp add: power_int_minus field_simps)
  have "y / float_ulp y - 1 / 2 \<le> of_int (round_even (y / float_ulp y))"
    by (rule round_even_ge)
  then have "(y / float_ulp y - 1 / 2) * float_ulp y \<le> of_int (round_even (y / float_ulp y)) * float_ulp y"
    using float_ulp_pos[of y] by (simp add: mult_right_mono)
  moreover have "(y / float_ulp y - 1 / 2) * float_ulp y = y - float_ulp y / 2"
    using float_ulp_pos[of y] by (simp add: field_simps)
  ultimately have "y - float_ulp y / 2 \<le> to_float y"
    using assms(1) by (simp add: to_float_def)
  then show ?thesis using u by simp
qed

lemma frames_idle:
  assumes "\<not> e_lmbDown env"
  shows "frames (replicate n env) prog =
           Inr (prog\<lparr>p_time := ((\<lambda>x. to_float (x + e_dt env)) ^^ n) (p_time prog),
                     p_phase := ((\<lambda>x. to_float (x + e_dt env)) ^^ n) (p_phase prog)\<rparr>)"
proof (induction n arbitrary: prog)
  case 0
  then show ?case by simp
next
  case (Suc n)
  have sw: "to_float (((\<lambda>x. to_float (x + d)) ^^ n) a + d) =
            ((\<lambda>x. to_float (x + d)) ^^ n) (to_float (a + d))" for a d
    using funpow_swap1[of "\<lambda>x. to_float (x + d)" n a] by simp
  show ?case
    by (simp add: frame_idle[OF assms] Suc.IH after_clocks_def sw)
qed

lemma clock_passes:
  assumes "1 / 2 ^ 20 \<le> dt" "dt \<le> 1" "0 \<le> x" "x \<le> 5"
  shows "\<exists>n. 5 < ((\<lambda>y. to_float (y + dt)) ^^ n) x"
proof (rule ccontr)
  let ?f = "\<lambda>y. to_float (y + dt)"
  assume "\<not> (\<exists>n. 5 < (?f ^^ n) x)"
  then have le: "(?f ^^ n) x \<le> 5" for n
    by (simp add: not_less)
  have "(0::real) < 1 / 2 ^ 20" by simp
  then have dt: "0 < dt" using assms(1) by linarith
  have ge: "x + real n * (dt / 2) \<le> (?f ^^ n) x" for n
  proof (induction n)
    case 0
    then show ?case by simp
  next
    case (Suc n)
    let ?y = "(?f ^^ n) x"
    have "0 \<le> real n * (dt / 2)" using dt by simp
    then have y0: "0 \<le> ?y" using Suc assms(3) by linarith
    have "0 < ?y + dt" "?y + dt < 8"
      using y0 dt le[of n] assms(2) by linarith+
    then have "?y + dt - 1 / 2 ^ 22 \<le> to_float (?y + dt)"
      by (rule to_float_ge)
    moreover have "(1::real) / 2 ^ 22 \<le> dt / 2"
      using assms(1) by simp
    ultimately have "?y + dt / 2 \<le> to_float (?y + dt)"
      by linarith
    moreover have "(?f ^^ Suc n) x = to_float (?y + dt)"
      by simp
    moreover have "x + real (Suc n) * (dt / 2) = x + real n * (dt / 2) + dt / 2"
      by (simp add: algebra_simps)
    ultimately show ?case
      using Suc by linarith
  qed
  obtain n where "10 < real n * dt"
    using dt ex_less_of_nat_mult by blast
  then have "5 < x + real n * (dt / 2)"
    using assms(3) by simp
  then show False
    using ge[of n] le[of n] by linarith
qed

lemma clock_stalls:
  "((\<lambda>y. to_float (y + 1)) ^^ n) 0 = min (real n) 16777216"
proof (induction n)
  case 0
  then show ?case by simp
next
  case (Suc n)
  show ?case
  proof (cases "n < 16777216")
    case True
    then have "to_float (real n + 1) = real (Suc n)"
      using to_float_nat[of "Suc n"] by (simp add: add.commute)
    then show ?thesis
      using True Suc by simp
  next
    case False
    then show ?thesis
      using Suc to_float_stall by simp
  qed
qed

lemma coordToValue_bounds:
  assumes "s_min s \<le> s_max s"
    and "s_min s \<le> round_dec (s_min s) (s_decimals s)"
    and "round_dec (s_max s) (s_decimals s) \<le> s_max s"
  shows "s_min s \<le> coordToValue s x \<and> coordToValue s x \<le> s_max s"
proof -
  let ?v = "CLAMP ((1 + x) / sliderWidth * (s_max s - s_min s) + s_min s) (s_min s) (s_max s)"
  have r: "s_min s \<le> ?v \<and> ?v \<le> s_max s"
    using assms(1) CLAMP_range[of "s_min s" "s_max s"] by simp
  have "s_min s \<le> round_dec ?v (s_decimals s)"
    using assms(2) round_dec_mono[of "s_min s" ?v "s_decimals s"] r by linarith
  moreover have "round_dec ?v (s_decimals s) \<le> s_max s"
    using assms(3) round_dec_mono[of ?v "s_max s" "s_decimals s"] r by linarith
  ultimately show ?thesis by (simp add: coordToValue_eq)
qed

lemma frame_edit_phase:
  assumes "frame env prog = Inr (prog', events)"
    and "k < length (p_sliders prog)" "pointInside k (e_anchorPos env)" "e_lmbDown env"
    and "s_value (p_sliders prog ! k) = F_phase"
  shows "p_phase prog' = coordToValue (p_sliders prog ! k) (fst (e_cursorPos env))"
proof -
  have "slider_step env k (after_clocks env prog, []) = Inr (prog', events)"
    using assms(1) slider_loop_hit[OF assms(2,3)] by (simp add: frame_eq)
  then show ?thesis
    using assms(3,4,5)
    by (auto simp: slider_step_def Let_def split: if_splits sum.splits)
qed

lemma init_first_slider:
  assumes "init prog = Inr p0" "p_sliders prog = []"
  shows "p_sliders p0 ! 0 =
           \<lparr> s_title = ''Time'', s_min = 0.0, s_max = 5.0, s_value = F_phase,
             s_decimals = 3, s_recompile = False \<rparr>"
proof -
  obtain p1 p2 shd where
    p1: "addWave (prog\<lparr> p_time := 0.0, p_phase := 0.0, p_sampleCount := 40, p_resoMul := 0.5,
                       p_filtering := 0.0, p_r := 1.0, p_g := 0.6, p_b := 0.4,
                       p_complexColor := 0.0, p_absorption := 0.0, p_cutoff := 0.0,
                       p_distance := 2.0, p_sliders := default_sliders \<rparr>) = Inr p1"
    and p2: "addWave p1 = Inr p2" and p0: "p0 = p2\<lparr>p_shader := shd\<rparr>"
    using assms
    by (auto simp: init_def Let_def default_sliders_def push_def Program_maxSliders_def
             split: sum.splits)
  have ld: "length default_sliders = 11"
    by (simp add: default_sliders_def)
  have "take 11 (p_sliders p1) = default_sliders" "length (p_sliders p1) = 17"
    using addWave_sliders[OF p1] ld by auto
  moreover have "take 17 (p_sliders p2) = p_sliders p1"
    using addWave_sliders[OF p2] calculation by auto
  ultimately have "take 11 (take 17 (p_sliders p2)) = default_sliders"
    by simp
  then have "take 11 (p_sliders p2) = default_sliders"
    by simp
  then have "p_sliders p2 ! 0 = default_sliders ! 0"
    by (metis nth_take zero_less_numeral)
  then show ?thesis
    by (simp add: p0 default_sliders_def)
qed

text \<open>
  Claim C10, as stated, fails in one point: the bound value does not grow without
  bound. \<^verbatim>\<open>prog.phase\<close> is a \<^verbatim>\<open>float\<close>, and \<^verbatim>\<open>prog.phase += env.dt\<close>
  stores the rounded sum. Started by \<^verbatim>\<open>init\<close> and run with the button up and
  a delta time of \<open>1\<close>, the phase after \<open>n\<close> frames is \<open>n\<close> up to
  \<open>n = 2^24 = 16777216\<close> and stays \<open>2^24\<close> for ever after, because
  \<open>2^24 + 1\<close> rounds back to \<open>2^24\<close>.
\<close>

theorem frame_clock_stalls_counterexample:
  "\<exists>p0. init Program_zero = Inr p0 \<and>
     (\<forall>n. \<exists>p. frames (replicate n \<lparr> e_dt = 1, e_anchorPos = (0, 0), e_cursorPos = (0, 0), e_lmbDown = False \<rparr>) p0 = Inr p \<and>
              p_phase p = min (real n) 16777216 \<and> p_phase p \<le> 16777216)"
proof -
  obtain p0 where p0: "init Program_zero = Inr p0" "p_phase p0 = 0"
    using init_zero by blast
  have "\<exists>p. frames (replicate n \<lparr> e_dt = 1, e_anchorPos = (0, 0), e_cursorPos = (0, 0), e_lmbDown = False \<rparr>) p0 = Inr p \<and>
              p_phase p = min (real n) 16777216 \<and> p_phase p \<le> 16777216" for n
    using frames_idle[of "\<lparr> e_dt = 1, e_anchorPos = (0, 0), e_cursorPos = (0, 0), e_lmbDown = False \<rparr>" n p0] clock_stalls[of n] p0(2)
    by simp
  then show ?thesis using p0(1) by blast
qed

text \<open>
  Claim C10, amended: every call of \<^verbatim>\<open>frame\<close> runs its slider loop on the state
  whose two clocks were advanced by the frame's delta time (in \<^verbatim>\<open>float\<close>
  arithmetic), whatever the input. \<^verbatim>\<open>init\<close> binds \<^verbatim>\<open>prog.phase\<close> to the
  first slider, "Time", with range \<open>[0, 5]\<close>. The increment does not confine the
  bound value to that range: with the button up and a delta time between
  \<open>2^(-20)\<close> and \<open>1\<close>, enough frames take a phase that lies in \<open>[0, 5]\<close> beyond
  the maximum \<open>5\<close>. A pointer edit of the "Time" slider does confine it: after a
  frame in which that slider is edited the phase lies in \<open>[0, 5]\<close>.
\<close>

theorem frame_clock_passes_time_slider_range:
  "frame env prog = slider_loop env [0..<length (p_sliders prog)] (after_clocks env prog, []) \<and>
   p_time (after_clocks env prog) = to_float (p_time prog + e_dt env) \<and>
   p_phase (after_clocks env prog) = to_float (p_phase prog + e_dt env) \<and>
   (\<forall>p0. init prog = Inr p0 \<and> p_sliders prog = [] \<longrightarrow>
      p_sliders p0 ! 0 =
        \<lparr> s_title = ''Time'', s_min = 0, s_max = 5, s_value = F_phase,
          s_decimals = 3, s_recompile = False \<rparr>) \<and>
   (\<not> e_lmbDown env \<and> 1 / 2 ^ 20 \<le> e_dt env \<and> e_dt env \<le> 1 \<and>
    0 \<le> p_phase prog \<and> p_phase prog \<le> 5 \<longrightarrow>
      (\<exists>n p. frames (replicate n env) prog = Inr p \<and> p_sliders p = p_sliders prog \<and>
             5 < p_phase p)) \<and>
   (\<forall>prog' events.
      frame env prog = Inr (prog', events) \<and> 0 < length (p_sliders prog) \<and>
      p_sliders prog ! 0 =
        \<lparr> s_title = ''Time'', s_min = 0, s_max = 5, s_value = F_phase,
          s_decimals = 3, s_recompile = False \<rparr> \<and>
      pointInside 0 (e_anchorPos env) \<and> e_lmbDown env \<longrightarrow>
      0 \<le> p_phase prog' \<and> p_phase prog' \<le> 5)"
proof -
  have grow: "\<exists>n p. frames (replicate n env) prog = Inr p \<and> p_sliders p = p_sliders prog \<and>
             5 < p_phase p"
    if idle: "\<not> e_lmbDown env" and dt: "1 / 2 ^ 20 \<le> e_dt env" "e_dt env \<le> 1"
      and ph: "0 \<le> p_phase prog" "p_phase prog \<le> 5"
  proof -
    obtain n where n: "5 < ((\<lambda>y. to_float (y + e_dt env)) ^^ n) (p_phase prog)"
      using clock_passes[OF dt ph] by blast
    show ?thesis
      using frames_idle[OF idle, of n prog] n
      by (intro exI[of _ n]) auto
  qed
  have edit: "0 \<le> p_phase prog' \<and> p_phase prog' \<le> 5"
    if "frame env prog = Inr (prog', events)" "0 < length (p_sliders prog)"
      "p_sliders prog ! 0 =
        \<lparr> s_title = ''Time'', s_min = 0, s_max = 5, s_value = F_phase,
          s_decimals = 3, s_recompile = False \<rparr>"
      "pointInside 0 (e_anchorPos env)" "e_lmbDown env"
    for prog' events
  proof -
    let ?s = "\<lparr> s_title = ''Time'', s_min = 0, s_max = 5, s_value = F_phase,
          s_decimals = 3, s_recompile = False \<rparr>"
    have "p_phase prog' = coordToValue ?s (fst (e_cursorPos env))"
      using frame_edit_phase[OF that(1,2,4,5)] that(3) by simp
    moreover have "s_min ?s \<le> coordToValue ?s (fst (e_cursorPos env)) \<and>
                   coordToValue ?s (fst (e_cursorPos env)) \<le> s_max ?s"
      by (rule coordToValue_bounds) (simp_all add: round_dec_def)
    ultimately show ?thesis by simp
  qed
  have clocks: "p_time (after_clocks env prog) = to_float (p_time prog + e_dt env)"
    "p_phase (after_clocks env prog) = to_float (p_phase prog + e_dt env)"
    by (simp_all add: after_clocks_def)
  have bound: "p_sliders p0 ! 0 = \<lparr> s_title = ''Time'', s_min = 0, s_max = 5, s_value = F_phase,
          s_decimals = 3, s_recompile = False \<rparr>"
    if "init prog = Inr p0" "p_sliders prog = []" for p0
    using init_first_slider[OF that] by simp
  show ?thesis
    using grow edit clocks bound frame_eq[of env prog] by blast
qed

theorem frame_clock_passes_time_slider_range_witness:
  "\<exists>p0. init Program_zero = Inr p0 \<and> p_sliders Program_zero = [] \<and>
     \<not> e_lmbDown \<lparr> e_dt = 1, e_anchorPos = (0, 0), e_cursorPos = (0, 0), e_lmbDown = False \<rparr> \<and>
     1 / 2 ^ 20 \<le> e_dt \<lparr> e_dt = 1, e_anchorPos = (0, 0), e_cursorPos = (0, 0), e_lmbDown = False \<rparr> \<and>
     e_dt \<lparr> e_dt = 1, e_anchorPos = (0, 0), e_cursorPos = (0, 0), e_lmbDown = False \<rparr> \<le> 1 \<and>
     0 \<le> p_phase p0 \<and> p_phase p0 \<le> 5 \<and>
     pointInside 0 (- 0.9, 0.975) \<and>
     s_title (p_sliders p0 ! 0) = ''Time'' \<and> s_value (p_sliders p0 ! 0) = F_phase \<and>
     s_max (p_sliders p0 ! 0) = 5 \<and>
     (\<exists>n p. frames (replicate n \<lparr> e_dt = 1, e_anchorPos = (0, 0), e_cursorPos = (0, 0), e_lmbDown = False \<rparr>) p0 = Inr p \<and>
            s_max (p_sliders p ! 0) < deref p (s_value (p_sliders p ! 0))) \<and>
     (\<exists>p' events. frame \<lparr> e_dt = 1, e_anchorPos = (- 0.9, 0.975), e_cursorPos = (7, 0.975),
                        e_lmbDown = True \<rparr> p0 = Inr (p', events) \<and>
            0 \<le> p_phase p' \<and> p_phase p' \<le> 5)"
proof -
  let ?idle = "\<lparr> e_dt = 1, e_anchorPos = (0, 0), e_cursorPos = (0, 0), e_lmbDown = False \<rparr>"
  let ?edit = "\<lparr> e_dt = 1, e_anchorPos = (- 0.9, 0.975), e_cursorPos = (7, 0.975),
                        e_lmbDown = True \<rparr>"
  obtain p0 where p0: "init Program_zero = Inr p0" "length (p_sliders p0) = 23" "p_phase p0 = 0"
    using init_zero by blast
  have z: "p_sliders Program_zero = []"
    by (simp add: Program_zero_def)
  have s0: "p_sliders p0 ! 0 =
      \<lparr> s_title = ''Time'', s_min = 0, s_max = 5, s_value = F_phase,
          s_decimals = 3, s_recompile = False \<rparr>"
    using frame_clock_passes_time_slider_range[of ?idle Program_zero] p0(1) z by simp
  obtain n p where np: "frames (replicate n ?idle) p0 = Inr p" "p_sliders p = p_sliders p0"
    "5 < p_phase p"
    using frame_clock_passes_time_slider_range[of ?idle p0] p0(3) by auto
  have inside: "pointInside 0 (e_anchorPos ?edit)"
    by (simp add: pointInside_def slider_top_def slider_bottom_def sliderHeight_def sliderWidth_def)
  have step: "\<exists>q. slider_step ?edit 0 (after_clocks ?edit p0, []) = Inr (q, [])"
    using inside s0 by (simp add: slider_step_def Let_def)
  then obtain q where q: "frame ?edit p0 = Inr (q, [])"
    using slider_loop_hit[of 0 "length (p_sliders p0)" ?edit, OF _ inside] p0(2)
    by (auto simp: frame_eq)
  have "0 \<le> p_phase q \<and> p_phase q \<le> 5"
    using frame_clock_passes_time_slider_range[of ?edit p0] q s0 inside p0(2) by simp
  moreover have "s_max (p_sliders p ! 0) < deref p (s_value (p_sliders p ! 0))"
    using np s0 by simp
  ultimately show ?thesis
    using p0(1,3) s0 np(1) q z inside by (intro exI[of _ p0]) auto
qed

end
